theory Spec2Isabelle
  imports Complex_Main
begin

section \<open>Python values and exceptions\<close>

text \<open>
  The application (\<^verbatim>\<open>app.py\<close>) talks to three upstream HTTP services and decodes their
  JSON answers with \<^verbatim>\<open>r.json()\<close>. A decoded answer is an arbitrary JSON value, and the code
  branches on its shape (truthiness, \<^verbatim>\<open>.get\<close>, subscripts, \<^verbatim>\<open>float(...)\<close>), so the model keeps
  the whole value. Python's \<^verbatim>\<open>None\<close> is \<open>JNull\<close>. Python floats are idealised as reals
  (no NaN, no infinities, no rounding error); JSON integers and floats are both \<open>JNum\<close>.
  A JSON object is the decoded \<^verbatim>\<open>dict\<close>, an association list read with \<open>map_of\<close>.
\<close>

datatype jval =
    JNull
  | JBool bool
  | JNum real
  | JStr string
  | JArr "jval list"
  | JObj "(string \<times> jval) list"

text \<open>
  The exceptions the code distinguishes. \<open>HTTPError c\<close> is \<^verbatim>\<open>requests.HTTPError\<close> with
  \<^verbatim>\<open>getattr(e.response, "status_code", None) = c\<close>; \<open>RequestException\<close> is any other
  \<^verbatim>\<open>requests.RequestException\<close> (timeout, connection error); the rest are built-in
  exceptions, none of them a \<^verbatim>\<open>RequestException\<close>.
\<close>

datatype exn =
    HTTPError "nat option"
  | RequestException
  | KeyError
  | TypeError
  | ValueError
  | AttributeError
  | IndexError
  | RuntimeError string

text \<open>Truthiness, as \<^verbatim>\<open>if x\<close>, \<^verbatim>\<open>not x\<close> and \<^verbatim>\<open>x or y\<close> read it.\<close>

fun truthy :: "jval \<Rightarrow> bool" where
  "truthy JNull = False"
| "truthy (JBool b) = b"
| "truthy (JNum r) = (r \<noteq> 0)"
| "truthy (JStr s) = (s \<noteq> [])"
| "truthy (JArr xs) = (xs \<noteq> [])"
| "truthy (JObj kvs) = (kvs \<noteq> [])"

definition py_or :: "jval \<Rightarrow> jval \<Rightarrow> jval" where
  "py_or a b = (if truthy a then a else b)"

text \<open>\<^verbatim>\<open>x.get(key, default)\<close>: only a dict has \<^verbatim>\<open>.get\<close>.\<close>

fun dict_get :: "jval \<Rightarrow> string \<Rightarrow> jval \<Rightarrow> exn + jval" where
  "dict_get (JObj kvs) k dflt = Inr (case map_of kvs k of Some v \<Rightarrow> v | None \<Rightarrow> dflt)"
| "dict_get _ k dflt = Inl AttributeError"

text \<open>\<^verbatim>\<open>x[key]\<close> with a string key: a dict without the key raises KeyError, every other
  JSON value raises TypeError.\<close>

fun getitem :: "jval \<Rightarrow> string \<Rightarrow> exn + jval" where
  "getitem (JObj kvs) k = (case map_of kvs k of Some v \<Rightarrow> Inr v | None \<Rightarrow> Inl KeyError)"
| "getitem _ k = Inl TypeError"

text \<open>\<^verbatim>\<open>arr[-1]\<close> on a truthy value: the last element of a list, the last character of a
  string, KeyError on a dict (its keys are strings), TypeError on a number or a bool.\<close>

fun index_last :: "jval \<Rightarrow> exn + jval" where
  "index_last (JArr xs) = (if xs = [] then Inl IndexError else Inr (last xs))"
| "index_last (JStr s) = (if s = [] then Inl IndexError else Inr (JStr [last s]))"
| "index_last (JObj kvs) = Inl KeyError"
| "index_last _ = Inl TypeError"

text \<open>\<^verbatim>\<open>for x in v\<close>: a list gives its elements, a string its characters, a dict its keys;
  a number, a bool and None are not iterable.\<close>

fun py_iter :: "jval \<Rightarrow> exn + jval list" where
  "py_iter (JArr xs) = Inr xs"
| "py_iter (JStr s) = Inr (map (\<lambda>c. JStr [c]) s)"
| "py_iter (JObj kvs) = Inr (map (\<lambda>kv. JStr (fst kv)) kvs)"
| "py_iter _ = Inl TypeError"

text \<open>
  \<^verbatim>\<open>float(v)\<close>. Parsing a string is Python's own parser, a parameter of the model
  (\<open>strfloat\<close>, \<open>None\<close> where \<^verbatim>\<open>float\<close> raises ValueError).
\<close>

fun py_float :: "(string \<Rightarrow> real option) \<Rightarrow> jval \<Rightarrow> exn + real" where
  "py_float sf (JNum r) = Inr r"
| "py_float sf (JBool b) = Inr (if b then 1 else 0)"
| "py_float sf (JStr s) = (case sf s of Some r \<Rightarrow> Inr r | None \<Rightarrow> Inl ValueError)"
| "py_float sf _ = Inl TypeError"

text \<open>
  \<^verbatim>\<open>round(x, n)\<close> on a float: to \<open>n\<close> decimals, a tie going to the even neighbour.
\<close>

definition py_round :: "real \<Rightarrow> nat \<Rightarrow> real" where
  "py_round x n =
     (let y = x * 10 ^ n; f = \<lfloor>y\<rfloor>; r = y - of_int f
      in of_int (if r < 1 / 2 then f else if 1 / 2 < r then f + 1
                 else if even f then f else f + 1) / 10 ^ n)"

text \<open>\<^verbatim>\<open>s.lower()\<close> on the ASCII letters (no other character lowers to a letter of
  \<^verbatim>\<open>"active"\<close>).\<close>

definition lower_char :: "char \<Rightarrow> char" where
  "lower_char c =
     (case map_of (zip ''ABCDEFGHIJKLMNOPQRSTUVWXYZ'' ''abcdefghijklmnopqrstuvwxyz'') c of
        Some l \<Rightarrow> l
      | None \<Rightarrow> c)"

fun py_lower :: "jval \<Rightarrow> exn + string" where
  "py_lower (JStr s) = Inr (map lower_char s)"
| "py_lower _ = Inl AttributeError"

text \<open>\<^verbatim>\<open>str(v)\<close>: a string is itself; the text of any other value is a parameter.\<close>

definition py_str :: "(jval \<Rightarrow> string) \<Rightarrow> jval \<Rightarrow> string" where
  "py_str ps v = (case v of JStr s \<Rightarrow> s | _ \<Rightarrow> ps v)"

section \<open>The upstream services and the process state\<close>

text \<open>
  One \<^verbatim>\<open>requests.get\<close>. \<open>Raises e\<close>: the call itself raises (timeout, connection error).
  \<open>Response status body\<close>: an answer with that status, whose \<^verbatim>\<open>r.json()\<close> raises
  (\<open>Inl\<close>; the class of that exception depends on the version of \<^verbatim>\<open>requests\<close>) or decodes
  to a value (\<open>Inr\<close>).
\<close>

datatype http_result = Raises exn | Response nat "exn + jval"

datatype request =
    MarineGet real real
  | StationsGet real real real real
  | StationDetailGet string
  | DataGet string string nat

text \<open>
  Everything outside the program: the answer to the \<open>k\<close>-th upstream request, the \<open>k\<close>-th
  reading of \<^verbatim>\<open>time.time()\<close>, Python's float parser and \<^verbatim>\<open>str\<close> of a value that is not a
  string, and the two haversine functions (float trigonometry; \<open>Inl\<close> where \<^verbatim>\<open>math\<close> raises).
\<close>

record env =
  net :: "nat \<Rightarrow> request \<Rightarrow> http_result"
  clock :: "nat \<Rightarrow> real"
  strfloat :: "string \<Rightarrow> real option"
  pystr :: "jval \<Rightarrow> string"
  haversine_km :: "real \<Rightarrow> real \<Rightarrow> real \<Rightarrow> real \<Rightarrow> exn + real"
  tide_haversine_km :: "real \<Rightarrow> real \<Rightarrow> real \<Rightarrow> real \<Rightarrow> exn + real"

record marine =
  wind_speed_kt :: jval
  wind_dir :: jval
  wave_height_m :: jval
  wave_dir :: jval
  wave_period_s :: jval
  sst_c :: jval

record marine_entry =
  m_ts :: real
  m_data :: marine

record tide_point =
  p_t :: jval
  p_v :: real

record tide_event =
  e_t :: jval
  e_v :: real
  e_type :: jval

text \<open>A station dict. \<open>st_distance_km\<close> is \<open>None\<close> where the dict has no such key,
  \<open>Some None\<close> where the key holds \<^verbatim>\<open>None\<close>.\<close>

record station =
  st_id :: string
  st_name :: jval
  st_state :: jval
  st_lat :: "real option"
  st_lon :: "real option"
  st_distance_km :: "real option option"

record tide_entry =
  t_ts :: real
  t_meta :: station
  t_series :: "tide_point list"
  t_hilo :: "tide_event list"
  t_stale :: bool

text \<open>
  The mutable state of the process: the two module-level caches, the upstream requests
  issued so far (most recent first) and the number of clock readings taken.
\<close>

record world =
  calls :: "request list"
  ticks :: nat
  marine_cache :: "(real \<times> real) \<rightharpoonup> marine_entry"
  tides_cache :: "string \<rightharpoonup> tide_entry"

definition MARINE_TTL :: real where
  "MARINE_TTL = 15 * 60"

definition TIDES_TTL :: real where
  "TIDES_TTL = 10 * 60"

text \<open>\<^verbatim>\<open>time.time()\<close>.\<close>

definition time_time :: "env \<Rightarrow> world \<Rightarrow> real \<times> world" where
  "time_time E w = (clock E (ticks w), w\<lparr>ticks := Suc (ticks w)\<rparr>)"

text \<open>\<^verbatim>\<open>r = requests.get(...); r.raise_for_status(); r.json()\<close> for the \<open>k\<close>-th
  request: a status from 400 to 599 raises HTTPError.\<close>

definition http_outcome :: "env \<Rightarrow> nat \<Rightarrow> request \<Rightarrow> exn + jval" where
  "http_outcome E k rq =
     (case net E k rq of
        Raises e \<Rightarrow> Inl e
      | Response status body \<Rightarrow>
          if 400 \<le> status \<and> status < 600 then Inl (HTTPError (Some status)) else body)"

text \<open>The same against the state: the request is logged.\<close>

definition get_json :: "env \<Rightarrow> request \<Rightarrow> world \<Rightarrow> (exn + jval) \<times> world" where
  "get_json E rq w = (http_outcome E (length (calls w)) rq, w\<lparr>calls := rq # calls w\<rparr>)"

section \<open>Marine conditions\<close>

text \<open>The local function \<^verbatim>\<open>last(name)\<close> of \<^verbatim>\<open>_fetch_marine\<close>.\<close>

definition last_hourly :: "jval \<Rightarrow> string \<Rightarrow> exn + jval" where
  "last_hourly h name =
     (case dict_get h name JNull of
        Inl e \<Rightarrow> Inl e
      | Inr v \<Rightarrow> (let arr = py_or v (JArr []) in
                  if truthy arr then index_last arr else Inr JNull))"

text \<open>\<^verbatim>\<open>round((x or 0) * 0.539957, 1)\<close>: a string, list or dict times a float raises
  TypeError; \<^verbatim>\<open>True\<close> counts as 1.\<close>

definition wind_kt :: "jval \<Rightarrow> exn + jval" where
  "wind_kt x =
     (case py_or x (JNum 0) of
        JNum r \<Rightarrow> Inr (JNum (py_round (r * 0.539957) 1))
      | JBool b \<Rightarrow> Inr (JNum (py_round ((if b then 1 else 0) * 0.539957) 1))
      | _ \<Rightarrow> Inl TypeError)"

text \<open>The body of the \<^verbatim>\<open>try\<close> block after \<^verbatim>\<open>j = r.json()\<close>: the dict \<^verbatim>\<open>data\<close>.\<close>

definition marine_data :: "jval \<Rightarrow> exn + marine" where
  "marine_data j =
     (case dict_get j ''hourly'' (JObj []) of
        Inl e \<Rightarrow> Inl e
      | Inr h \<Rightarrow>
     (case last_hourly h ''wind_speed_10m'' of Inl e \<Rightarrow> Inl e | Inr ws \<Rightarrow>
     (case wind_kt ws of Inl e \<Rightarrow> Inl e | Inr kt \<Rightarrow>
     (case last_hourly h ''wind_direction_10m'' of Inl e \<Rightarrow> Inl e | Inr wd \<Rightarrow>
     (case last_hourly h ''wave_height'' of Inl e \<Rightarrow> Inl e | Inr wh \<Rightarrow>
     (case last_hourly h ''wave_direction'' of Inl e \<Rightarrow> Inl e | Inr wvd \<Rightarrow>
     (case last_hourly h ''wave_period'' of Inl e \<Rightarrow> Inl e | Inr wp \<Rightarrow>
     (case last_hourly h ''sea_surface_temperature'' of Inl e \<Rightarrow> Inl e | Inr sst \<Rightarrow>
        Inr \<lparr>wind_speed_kt = kt, wind_dir = wd, wave_height_m = wh, wave_dir = wvd,
             wave_period_s = wp, sst_c = sst\<rparr>))))))))"

text \<open>\<^verbatim>\<open>_fetch_marine(lat, lon)\<close>: the snapshot or \<^verbatim>\<open>None\<close>, and the state after the call.\<close>

definition fetch_marine :: "env \<Rightarrow> real \<Rightarrow> real \<Rightarrow> world \<Rightarrow> marine option \<times> world" where
  "fetch_marine E lat lon w =
     (let key = (py_round lat 2, py_round lon 2);
          (now, w1) = time_time E w;
          live =
            (case get_json E (MarineGet lat lon) w1 of
               (Inl e, w2) \<Rightarrow> (None, w2)
             | (Inr j, w2) \<Rightarrow>
                 (case marine_data j of
                    Inl e \<Rightarrow> (None, w2)
                  | Inr data \<Rightarrow>
                      (Some data,
                       w2\<lparr>marine_cache := (marine_cache w2)(key \<mapsto> \<lparr>m_ts = now, m_data = data\<rparr>)\<rparr>)))
      in case marine_cache w1 key of
           Some c \<Rightarrow> if now - m_ts c < MARINE_TTL then (Some (m_data c), w1) else live
         | None \<Rightarrow> live)"

section \<open>Nearest tide station\<close>

definition newport_ri :: station where
  "newport_ri =
     \<lparr>st_id = ''8452660'', st_name = JStr ''Newport, RI'', st_state = JStr ''RI'',
      st_lat = Some 41.504, st_lon = Some (- 71.326), st_distance_km = Some None\<rparr>"

definition galveston_tx :: station where
  "galveston_tx =
     \<lparr>st_id = ''8771450'', st_name = JStr ''Galveston Pier 21, TX'', st_state = JStr ''TX'',
      st_lat = Some 29.31, st_lon = Some (- 94.79), st_distance_km = Some None\<rparr>"

definition san_francisco_ca :: station where
  "san_francisco_ca =
     \<lparr>st_id = ''9414290'', st_name = JStr ''San Francisco, CA'', st_state = JStr ''CA'',
      st_lat = Some 37.806, st_lon = Some (- 122.465), st_distance_km = Some None\<rparr>"

text \<open>The \<^verbatim>\<open>try\<close> block of both station loops:
  \<^verbatim>\<open>s_lat = float(s["lat"]); s_lon = float(s["lng"])\<close>, then
  \<^verbatim>\<open>d = _tide_haversine_km(lat, lon, s_lat, s_lon)\<close>.\<close>

definition coords :: "env \<Rightarrow> jval \<Rightarrow> exn + real \<times> real" where
  "coords E s =
     (case getitem s ''lat'' of Inl e \<Rightarrow> Inl e | Inr a \<Rightarrow>
      case py_float (strfloat E) a of Inl e \<Rightarrow> Inl e | Inr s_lat \<Rightarrow>
      case getitem s ''lng'' of Inl e \<Rightarrow> Inl e | Inr b \<Rightarrow>
      case py_float (strfloat E) b of Inl e \<Rightarrow> Inl e | Inr s_lon \<Rightarrow>
        Inr (s_lat, s_lon))"

definition station_dist :: "env \<Rightarrow> real \<Rightarrow> real \<Rightarrow> jval \<Rightarrow> exn + real" where
  "station_dist E lat lon s =
     (case coords E s of
        Inl e \<Rightarrow> Inl e
      | Inr (s_lat, s_lon) \<Rightarrow> tide_haversine_km E lat lon s_lat s_lon)"

text \<open>The first loop: the nearest station whose status is active. A failure of the
  \<^verbatim>\<open>try\<close> block skips the station; \<^verbatim>\<open>s.get("status", "").lower()\<close> stands outside it.\<close>

fun scan_active ::
  "env \<Rightarrow> real \<Rightarrow> real \<Rightarrow> jval list \<Rightarrow> jval option \<times> real \<Rightarrow> exn + (jval option \<times> real)" where
  "scan_active E lat lon [] acc = Inr acc"
| "scan_active E lat lon (s # ss) (best, best_d) =
     (case station_dist E lat lon s of
        Inl e \<Rightarrow> scan_active E lat lon ss (best, best_d)
      | Inr d \<Rightarrow>
          (case dict_get s ''status'' (JStr []) of Inl e \<Rightarrow> Inl e | Inr st \<Rightarrow>
           case py_lower st of Inl e \<Rightarrow> Inl e | Inr l \<Rightarrow>
             if l = ''active'' \<and> d < best_d then scan_active E lat lon ss (Some s, d)
             else scan_active E lat lon ss (best, best_d)))"

text \<open>The second loop: the nearest station whatever its status.\<close>

fun scan_any ::
  "env \<Rightarrow> real \<Rightarrow> real \<Rightarrow> jval list \<Rightarrow> jval option \<times> real \<Rightarrow> jval option \<times> real" where
  "scan_any E lat lon [] acc = acc"
| "scan_any E lat lon (s # ss) (best, best_d) =
     (case station_dist E lat lon s of
        Inl e \<Rightarrow> scan_any E lat lon ss (best, best_d)
      | Inr d \<Rightarrow>
          if d < best_d then scan_any E lat lon ss (Some s, d)
          else scan_any E lat lon ss (best, best_d))"

definition pick_best :: "env \<Rightarrow> real \<Rightarrow> real \<Rightarrow> jval list \<Rightarrow> exn + (jval option \<times> real)" where
  "pick_best E lat lon ss =
     (case scan_active E lat lon ss (None, 10 ^ 12) of
        Inl e \<Rightarrow> Inl e
      | Inr (best, best_d) \<Rightarrow>
          if best = None then Inr (scan_any E lat lon ss (best, best_d))
          else Inr (best, best_d))"

text \<open>The directory query of one bounding box:
  \<^verbatim>\<open>stations = r.json().get("stations", []) or []\<close>, and \<^verbatim>\<open>[]\<close> on any exception.\<close>

definition stations_of :: "exn + jval \<Rightarrow> jval" where
  "stations_of r =
     (case r of
        Inl e \<Rightarrow> JArr []
      | Inr j \<Rightarrow>
          (case dict_get j ''stations'' (JArr []) of
             Inl e \<Rightarrow> JArr []
           | Inr v \<Rightarrow> py_or v (JArr [])))"

definition directory_stations :: "env \<Rightarrow> request \<Rightarrow> world \<Rightarrow> jval \<times> world" where
  "directory_stations E rq w = (case get_json E rq w of (r, w') \<Rightarrow> (stations_of r, w'))"

text \<open>The sanity guard:
  \<^verbatim>\<open>abs(float(best["lat"]) - lat) > 10 and abs(float(best["lng"]) - lon) > 10\<close>.\<close>

definition too_far :: "env \<Rightarrow> real \<Rightarrow> real \<Rightarrow> jval \<Rightarrow> exn + bool" where
  "too_far E lat lon best =
     (case getitem best ''lat'' of Inl e \<Rightarrow> Inl e | Inr a \<Rightarrow>
      case py_float (strfloat E) a of Inl e \<Rightarrow> Inl e | Inr b_lat \<Rightarrow>
        if \<bar>b_lat - lat\<bar> > 10 then
          (case getitem best ''lng'' of Inl e \<Rightarrow> Inl e | Inr b \<Rightarrow>
           case py_float (strfloat E) b of Inl e \<Rightarrow> Inl e | Inr b_lon \<Rightarrow>
             Inr (\<bar>b_lon - lon\<bar> > 10))
        else Inr False)"

text \<open>\<^verbatim>\<open>float(best.get(k)) if best.get(k) is not None else None\<close>.\<close>

definition float_or_none :: "env \<Rightarrow> jval \<Rightarrow> string \<Rightarrow> exn + real option" where
  "float_or_none E best k =
     (case dict_get best k JNull of Inl e \<Rightarrow> Inl e | Inr v \<Rightarrow>
        if v \<noteq> JNull then
          (case py_float (strfloat E) v of Inl e \<Rightarrow> Inl e | Inr r \<Rightarrow> Inr (Some r))
        else Inr None)"

text \<open>The dict returned for an accepted candidate.\<close>

definition station_of :: "env \<Rightarrow> jval \<Rightarrow> real \<Rightarrow> exn + station" where
  "station_of E best best_d =
     (case getitem best ''id'' of Inl e \<Rightarrow> Inl e | Inr i \<Rightarrow>
      case dict_get best ''name'' (JStr ''NOAA Station'') of Inl e \<Rightarrow> Inl e | Inr nm \<Rightarrow>
      case dict_get best ''state'' (JStr []) of Inl e \<Rightarrow> Inl e | Inr stt \<Rightarrow>
      case float_or_none E best ''lat'' of Inl e \<Rightarrow> Inl e | Inr la \<Rightarrow>
      case float_or_none E best ''lng'' of Inl e \<Rightarrow> Inl e | Inr lo \<Rightarrow>
        Inr \<lparr>st_id = py_str (pystr E) i, st_name = nm, st_state = stt, st_lat = la,
             st_lon = lo, st_distance_km = Some (Some (py_round best_d 2))\<rparr>)"

text \<open>One round of \<^verbatim>\<open>for delta in (0.5, 1.0, 2.5)\<close>: go on to the next radius, return a
  station, or raise.\<close>

datatype step = Continue | Return station | Raise exn

definition search_box :: "env \<Rightarrow> real \<Rightarrow> real \<Rightarrow> real \<Rightarrow> real \<Rightarrow> world \<Rightarrow> step \<times> world" where
  "search_box E lat lon max_km delta w =
     (case directory_stations E
             (StationsGet (lon - delta) (lat - delta) (lon + delta) (lat + delta)) w of
        (stations, w') \<Rightarrow>
          if \<not> truthy stations then (Continue, w')
          else
            (case py_iter stations of Inl e \<Rightarrow> (Raise e, w') | Inr ss \<Rightarrow>
             case pick_best E lat lon ss of Inl e \<Rightarrow> (Raise e, w') | Inr (best, best_d) \<Rightarrow>
             case best of None \<Rightarrow> (Continue, w') | Some b \<Rightarrow>
               if \<not> truthy b \<or> best_d > max_km then (Continue, w')
               else if too_far E lat lon b = Inr True then (Continue, w')
               else (case station_of E b best_d of
                       Inl e \<Rightarrow> (Raise e, w')
                     | Inr st \<Rightarrow> (Return st, w'))))"

fun search_boxes ::
  "env \<Rightarrow> real \<Rightarrow> real \<Rightarrow> real \<Rightarrow> real list \<Rightarrow> world \<Rightarrow> step \<times> world" where
  "search_boxes E lat lon max_km [] w = (Continue, w)"
| "search_boxes E lat lon max_km (delta # ds) w =
     (case search_box E lat lon max_km delta w of
        (Continue, w') \<Rightarrow> search_boxes E lat lon max_km ds w'
      | (Return st, w') \<Rightarrow> (Return st, w')
      | (Raise e, w') \<Rightarrow> (Raise e, w'))"

text \<open>The regional defaults after the loop.\<close>

definition regional_default :: "real \<Rightarrow> real \<Rightarrow> station" where
  "regional_default lat lon =
     (if - 90 \<le> lon \<and> lon \<le> - 60 \<and> 25 \<le> lat \<and> lat \<le> 50 then newport_ri
      else if - 105 \<le> lon \<and> lon < - 90 \<and> 25 \<le> lat \<and> lat \<le> 35 then galveston_tx
      else if - 125 \<le> lon \<and> lon < - 105 \<and> 30 \<le> lat \<and> lat \<le> 50 then san_francisco_ca
      else newport_ri)"

text \<open>\<^verbatim>\<open>_nearest_tide_station(lat, lon, max_km)\<close>; \<open>Inl\<close> is an exception that leaves
  the function.\<close>

definition nearest_tide_station ::
  "env \<Rightarrow> jval \<Rightarrow> jval \<Rightarrow> real \<Rightarrow> world \<Rightarrow> (exn + station) \<times> world" where
  "nearest_tide_station E lat lon max_km w =
     (case py_float (strfloat E) lat of Inl e \<Rightarrow> (Inr newport_ri, w) | Inr la \<Rightarrow>
      case py_float (strfloat E) lon of Inl e \<Rightarrow> (Inr newport_ri, w) | Inr lo \<Rightarrow>
      case search_boxes E la lo max_km [0.5, 1.0, 2.5] w of
        (Continue, w') \<Rightarrow> (Inr (regional_default la lo), w')
      | (Return st, w') \<Rightarrow> (Inr st, w')
      | (Raise e, w') \<Rightarrow> (Inl e, w'))"

section \<open>Tide predictions\<close>

text \<open>One item of the loop of \<^verbatim>\<open>_fetch_hourly_predictions\<close>:
  \<^verbatim>\<open>{"t": p["t"], "v": float(p["v"])}\<close>.\<close>

definition point_of :: "env \<Rightarrow> jval \<Rightarrow> exn + tide_point" where
  "point_of E p =
     (case getitem p ''t'' of Inl e \<Rightarrow> Inl e | Inr t \<Rightarrow>
      case getitem p ''v'' of Inl e \<Rightarrow> Inl e | Inr v \<Rightarrow>
      case py_float (strfloat E) v of Inl e \<Rightarrow> Inl e | Inr x \<Rightarrow>
        Inr \<lparr>p_t = t, p_v = x\<rparr>)"

text \<open>One item of the loop of \<^verbatim>\<open>_fetch_highs_lows\<close>:
  \<^verbatim>\<open>{"t": it["t"], "v": float(it["v"]), "type": it["type"]}\<close>.\<close>

definition event_of :: "env \<Rightarrow> jval \<Rightarrow> exn + tide_event" where
  "event_of E it =
     (case getitem it ''t'' of Inl e \<Rightarrow> Inl e | Inr t \<Rightarrow>
      case getitem it ''v'' of Inl e \<Rightarrow> Inl e | Inr v \<Rightarrow>
      case py_float (strfloat E) v of Inl e \<Rightarrow> Inl e | Inr x \<Rightarrow>
      case getitem it ''type'' of Inl e \<Rightarrow> Inl e | Inr ty \<Rightarrow>
        Inr \<lparr>e_t = t, e_v = x, e_type = ty\<rparr>)"

text \<open>\<^verbatim>\<open>for x in xs: try: out.append(f(x)) except Exception: pass\<close>.\<close>

fun collect :: "('a \<Rightarrow> exn + 'b) \<Rightarrow> 'a list \<Rightarrow> 'b list" where
  "collect f [] = []"
| "collect f (x # xs) = (case f x of Inl e \<Rightarrow> collect f xs | Inr y \<Rightarrow> y # collect f xs)"

text \<open>\<^verbatim>\<open>r.json().get("predictions", [])\<close>, iterated.\<close>

definition predictions_of :: "jval \<Rightarrow> exn + jval list" where
  "predictions_of j =
     (case dict_get j ''predictions'' (JArr []) of Inl e \<Rightarrow> Inl e | Inr v \<Rightarrow> py_iter v)"

text \<open>The body of \<^verbatim>\<open>_fetch_hourly_predictions\<close> on the outcome of its request.\<close>

definition hourly_of :: "env \<Rightarrow> exn + jval \<Rightarrow> exn + tide_point list" where
  "hourly_of E r =
     (case r of Inl e \<Rightarrow> Inl e | Inr j \<Rightarrow>
      case predictions_of j of Inl e \<Rightarrow> Inl e | Inr ps \<Rightarrow> Inr (collect (point_of E) ps))"

text \<open>\<^verbatim>\<open>_fetch_hourly_predictions(station_id, hours)\<close>: one request for the hourly
  interval over \<^verbatim>\<open>hours + 6\<close> (datum, units and time zone are constants).\<close>

definition fetch_hourly_predictions ::
  "env \<Rightarrow> string \<Rightarrow> nat \<Rightarrow> world \<Rightarrow> (exn + tide_point list) \<times> world" where
  "fetch_hourly_predictions E station_id hours w =
     (case get_json E (DataGet station_id ''h'' (hours + 6)) w of
        (r, w') \<Rightarrow> (hourly_of E r, w'))"

text \<open>The body of \<^verbatim>\<open>_fetch_highs_lows\<close> on the outcome of its request.\<close>

definition hilo_of :: "env \<Rightarrow> exn + jval \<Rightarrow> exn + tide_event list" where
  "hilo_of E r =
     (case r of Inl e \<Rightarrow> Inl e | Inr j \<Rightarrow>
      case predictions_of j of Inl e \<Rightarrow> Inl e | Inr ps \<Rightarrow> Inr (collect (event_of E) ps))"

text \<open>\<^verbatim>\<open>_fetch_highs_lows(station_id)\<close>: one request for the hilo interval over 48.\<close>

definition fetch_highs_lows ::
  "env \<Rightarrow> string \<Rightarrow> world \<Rightarrow> (exn + tide_event list) \<times> world" where
  "fetch_highs_lows E station_id w =
     (case get_json E (DataGet station_id ''hilo'' 48) w of
        (r, w') \<Rightarrow> (hilo_of E r, w'))"

text \<open>
  The \<^verbatim>\<open>except\<close> clauses of both resilient fetches: an HTTPError whose code is 502, 503
  or 504 and any other RequestException \<^verbatim>\<open>continue\<close>; an HTTPError with another code is
  raised again; an exception of another class is not caught.
\<close>

fun retryable :: "exn \<Rightarrow> bool" where
  "retryable (HTTPError code) = (code \<in> {Some 502, Some 503, Some 504})"
| "retryable RequestException = True"
| "retryable _ = False"

text \<open>The end of a retry loop: a value was returned, an exception left the loop, or
  the loop ran out.\<close>

datatype 'a tried = Got 'a | Failed exn | Exhausted

text \<open>\<^verbatim>\<open>for _ in range(n)\<close> around \<^verbatim>\<open>_fetch_hourly_predictions(station_id, hours=hrs)\<close>.\<close>

fun predictions_tries ::
  "env \<Rightarrow> string \<Rightarrow> nat \<Rightarrow> nat \<Rightarrow> world \<Rightarrow> tide_point list tried \<times> world" where
  "predictions_tries E station_id hrs 0 w = (Exhausted, w)"
| "predictions_tries E station_id hrs (Suc n) w =
     (case fetch_hourly_predictions E station_id hrs w of
        (Inr out, w') \<Rightarrow> (Got out, w')
      | (Inl e, w') \<Rightarrow>
          if retryable e then predictions_tries E station_id hrs n w'
          else (Failed e, w'))"

text \<open>\<^verbatim>\<open>for hrs in (...)\<close>, and the RuntimeError after it.\<close>

fun predictions_windows ::
  "env \<Rightarrow> string \<Rightarrow> nat list \<Rightarrow> world \<Rightarrow> (exn + tide_point list) \<times> world" where
  "predictions_windows E station_id [] w =
     (Inl (RuntimeError ''NOAA predictions unavailable''), w)"
| "predictions_windows E station_id (hrs # rest) w =
     (case predictions_tries E station_id hrs 2 w of
        (Got out, w') \<Rightarrow> (Inr out, w')
      | (Failed e, w') \<Rightarrow> (Inl e, w')
      | (Exhausted, w') \<Rightarrow> predictions_windows E station_id rest w')"

text \<open>\<^verbatim>\<open>_fetch_predictions_resilient(station_id)\<close>.\<close>

definition fetch_predictions_resilient ::
  "env \<Rightarrow> string \<Rightarrow> world \<Rightarrow> (exn + tide_point list) \<times> world" where
  "fetch_predictions_resilient E station_id w = predictions_windows E station_id [36, 30, 24] w"

text \<open>\<^verbatim>\<open>for _ in range(n)\<close> around \<^verbatim>\<open>_fetch_highs_lows(station_id)\<close>.\<close>

fun hilo_tries :: "env \<Rightarrow> string \<Rightarrow> nat \<Rightarrow> world \<Rightarrow> tide_event list tried \<times> world" where
  "hilo_tries E station_id 0 w = (Exhausted, w)"
| "hilo_tries E station_id (Suc n) w =
     (case fetch_highs_lows E station_id w of
        (Inr out, w') \<Rightarrow> (Got out, w')
      | (Inl e, w') \<Rightarrow>
          if retryable e then hilo_tries E station_id n w'
          else (Failed e, w'))"

text \<open>\<^verbatim>\<open>_fetch_hilo_resilient(station_id)\<close>: the empty list once the loop has run out.\<close>

definition fetch_hilo_resilient ::
  "env \<Rightarrow> string \<Rightarrow> world \<Rightarrow> (exn + tide_event list) \<times> world" where
  "fetch_hilo_resilient E station_id w =
     (case hilo_tries E station_id 2 w of
        (Got out, w') \<Rightarrow> (Inr out, w')
      | (Failed e, w') \<Rightarrow> (Inl e, w')
      | (Exhausted, w') \<Rightarrow> (Inr [], w'))"

section \<open>The tides endpoint\<close>

definition placeholder_meta :: "string \<Rightarrow> station" where
  "placeholder_meta station_id =
     \<lparr>st_id = station_id, st_name = JStr (''NOAA Station '' @ station_id), st_state = JStr [],
      st_lat = None, st_lon = None, st_distance_km = None\<rparr>"

text \<open>\<^verbatim>\<open>float(st[k]) if st.get(k) else None\<close>.\<close>

definition float_if_truthy :: "env \<Rightarrow> jval \<Rightarrow> string \<Rightarrow> exn + real option" where
  "float_if_truthy E st k =
     (case dict_get st k JNull of Inl e \<Rightarrow> Inl e | Inr v \<Rightarrow>
        if truthy v then
          (case getitem st k of Inl e \<Rightarrow> Inl e | Inr x \<Rightarrow>
           case py_float (strfloat E) x of Inl e \<Rightarrow> Inl e | Inr r \<Rightarrow> Inr (Some r))
        else Inr None)"

text \<open>The \<^verbatim>\<open>try\<close> block of \<^verbatim>\<open>_station_meta_by_id\<close> after \<^verbatim>\<open>j = r.json()\<close>.\<close>

definition meta_of :: "env \<Rightarrow> string \<Rightarrow> jval \<Rightarrow> exn + station" where
  "meta_of E station_id j =
     (case dict_get j ''stations'' (JObj []) of Inl e \<Rightarrow> Inl e | Inr st0 \<Rightarrow>
      let st = (case st0 of JArr xs \<Rightarrow> (case xs of [] \<Rightarrow> JObj [] | x # _ \<Rightarrow> x) | _ \<Rightarrow> st0) in
      case dict_get st ''name'' JNull of Inl e \<Rightarrow> Inl e | Inr nm \<Rightarrow>
      case dict_get st ''state'' (JStr []) of Inl e \<Rightarrow> Inl e | Inr stt \<Rightarrow>
      case float_if_truthy E st ''lat'' of Inl e \<Rightarrow> Inl e | Inr la \<Rightarrow>
      case float_if_truthy E st ''lng'' of Inl e \<Rightarrow> Inl e | Inr lo \<Rightarrow>
        Inr \<lparr>st_id = station_id,
             st_name = py_or nm (JStr (''NOAA Station '' @ station_id)),
             st_state = stt, st_lat = la, st_lon = lo, st_distance_km = None\<rparr>)"

text \<open>\<^verbatim>\<open>_station_meta_by_id(station_id)\<close>: the placeholder on any exception.\<close>

definition station_meta_by_id :: "env \<Rightarrow> string \<Rightarrow> world \<Rightarrow> station \<times> world" where
  "station_meta_by_id E station_id w =
     (case get_json E (StationDetailGet station_id) w of
        (Inl e, w') \<Rightarrow> (placeholder_meta station_id, w')
      | (Inr j, w') \<Rightarrow>
          (case meta_of E station_id j of
             Inl e \<Rightarrow> (placeholder_meta station_id, w')
           | Inr m \<Rightarrow> (m, w')))"

text \<open>The query arguments of \<^verbatim>\<open>/api/tides\<close> as Flask hands them over: \<^verbatim>\<open>type=float\<close>
  gives \<^verbatim>\<open>None\<close> (for \<^verbatim>\<open>max_km\<close> the default 250.0) where the argument is missing or
  is not a float.\<close>

record tide_query =
  q_station :: "string option"
  q_lat :: "real option"
  q_lon :: "real option"
  q_max_km :: "real option"

text \<open>The JSON answers of the endpoint: the station (the meta dict with
  \<^verbatim>\<open>point_count\<close> and \<^verbatim>\<open>stale\<close>), the series and the high/low events; or the error of
  status 502.\<close>

datatype tide_response =
    Tides station nat bool "tide_point list" "tide_event list"
  | Unavailable string nat

text \<open>The first part of \<^verbatim>\<open>api_tides\<close>: the station id and its meta dict.\<close>

definition choose_station ::
  "env \<Rightarrow> tide_query \<Rightarrow> world \<Rightarrow> (exn + string \<times> station) \<times> world" where
  "choose_station E q w =
     (let max_km = (case q_max_km q of None \<Rightarrow> 250 | Some m \<Rightarrow> m);
          no_station = (case q_station q of None \<Rightarrow> True | Some s \<Rightarrow> s = [])
      in if no_station then
           (case (q_lat q, q_lon q) of
              (Some lat, Some lon) \<Rightarrow>
                (case nearest_tide_station E (JNum lat) (JNum lon) max_km w of
                   (Inl e, w') \<Rightarrow> (Inl e, w')
                 | (Inr meta, w') \<Rightarrow> (Inr (st_id meta, meta), w'))
            | _ \<Rightarrow> (Inr (st_id newport_ri, newport_ri\<lparr>st_distance_km := None\<rparr>), w))
         else
           (case station_meta_by_id E (the (q_station q)) w of
              (meta, w') \<Rightarrow> (Inr (the (q_station q), meta), w')))"

text \<open>The answer of the \<^verbatim>\<open>except\<close> branch: the cached entry served stale, or the
  502.\<close>

definition stale_or_unavailable :: "station \<Rightarrow> tide_entry option \<Rightarrow> tide_response" where
  "stale_or_unavailable meta cached =
     (case cached of
        Some c \<Rightarrow> Tides meta (length (t_series c)) True (t_series c) (t_hilo c)
      | None \<Rightarrow> Unavailable ''Tide data temporarily unavailable from NOAA.'' 502)"

text \<open>The \<^verbatim>\<open>try\<close>/\<^verbatim>\<open>except\<close> block of \<^verbatim>\<open>api_tides\<close>: the live fetch, cached on success,
  and the fallback on any exception.\<close>

definition live_bundle ::
  "env \<Rightarrow> string \<Rightarrow> station \<Rightarrow> real \<Rightarrow> tide_entry option \<Rightarrow> world \<Rightarrow> tide_response \<times> world" where
  "live_bundle E station_id meta now cached w1 =
     (case fetch_predictions_resilient E station_id w1 of
        (Inl e, w2) \<Rightarrow> (stale_or_unavailable meta cached, w2)
      | (Inr series, w2) \<Rightarrow>
          (case fetch_hilo_resilient E station_id w2 of
             (Inl e, w3) \<Rightarrow> (stale_or_unavailable meta cached, w3)
           | (Inr hilo, w3) \<Rightarrow>
               (Tides meta (length series) False series hilo,
                w3\<lparr>tides_cache := (tides_cache w3)(station_id \<mapsto>
                     \<lparr>t_ts = now, t_meta = meta, t_series = series, t_hilo = hilo,
                      t_stale = False\<rparr>)\<rparr>)))"

text \<open>The second part of \<^verbatim>\<open>api_tides\<close>, from \<^verbatim>\<open>now = time.time()\<close> on.\<close>

definition tides_bundle :: "env \<Rightarrow> string \<Rightarrow> station \<Rightarrow> world \<Rightarrow> tide_response \<times> world" where
  "tides_bundle E station_id meta w =
     (case time_time E w of (now, w1) \<Rightarrow>
      let cached = tides_cache w1 station_id in
      case cached of
        Some c \<Rightarrow>
          if now - t_ts c < TIDES_TTL
          then (Tides meta (length (t_series c)) (t_stale c) (t_series c) (t_hilo c), w1)
          else live_bundle E station_id meta now cached w1
      | None \<Rightarrow> live_bundle E station_id meta now cached w1)"

text \<open>\<^verbatim>\<open>api_tides()\<close>; \<open>Inl\<close> is an exception that leaves the handler.\<close>

definition api_tides :: "env \<Rightarrow> tide_query \<Rightarrow> world \<Rightarrow> (exn + tide_response) \<times> world" where
  "api_tides E q w =
     (case choose_station E q w of
        (Inl e, w') \<Rightarrow> (Inl e, w')
      | (Inr (station_id, meta), w') \<Rightarrow>
          (case tides_bundle E station_id meta w' of (resp, w'') \<Rightarrow> (Inr resp, w'')))"

section \<open>Nearby spots\<close>

text \<open>A row of the \<^verbatim>\<open>Dive\<close> table (the columns the endpoint reads) and a row of the
  answer.\<close>

record dive =
  d_id :: int
  d_user_id :: int
  d_name :: string
  d_lat :: real
  d_lon :: real
  d_notes :: "string option"
  d_is_public :: bool

record spot =
  s_id :: int
  s_name :: string
  s_lat :: real
  s_lon :: real
  s_distance_km :: real
  s_notes :: string
  s_is_public :: bool
  s_live :: "marine option"

text \<open>The query arguments of \<^verbatim>\<open>/api/nearby_spots\<close>, each the text given or absent.\<close>

record nearby_query =
  n_lat :: "string option"
  n_lon :: "string option"
  n_radius_km :: "string option"

datatype nearby_response = Spots "spot list" | BadRequest string nat

text \<open>\<^verbatim>\<open>float(request.args.get(k, ""))\<close>: the empty string is not a float.\<close>

definition arg_float :: "env \<Rightarrow> string option \<Rightarrow> exn + real" where
  "arg_float E a = py_float (strfloat E) (JStr (case a of None \<Rightarrow> [] | Some t \<Rightarrow> t))"

text \<open>\<^verbatim>\<open>float(request.args.get("radius_km", 100))\<close>.\<close>

definition arg_radius :: "env \<Rightarrow> string option \<Rightarrow> exn + real" where
  "arg_radius E a = (case a of None \<Rightarrow> Inr 100 | Some t \<Rightarrow> py_float (strfloat E) (JStr t))"

text \<open>The candidates: the public dives, then the caller's own dives that are not among
  them.\<close>

definition candidates :: "dive list \<Rightarrow> int option \<Rightarrow> dive list" where
  "candidates db current_user =
     (let spots = filter d_is_public db in
      case current_user of
        None \<Rightarrow> spots
      | Some uid \<Rightarrow>
          (let mine = filter (\<lambda>d. d_user_id d = uid) db;
               spots_ids = d_id ` set spots
           in spots @ filter (\<lambda>m. d_id m \<notin> spots_ids) mine))"

text \<open>The loop \<^verbatim>\<open>for d in spots\<close> with its \<^verbatim>\<open>seen\<close> set and its \<^verbatim>\<open>rows\<close>; a haversine
  that raises leaves the handler.\<close>

fun spots_loop ::
  "env \<Rightarrow> real \<Rightarrow> real \<Rightarrow> real \<Rightarrow> dive list \<Rightarrow> int set \<Rightarrow> spot list \<Rightarrow> world
     \<Rightarrow> (exn + spot list) \<times> world" where
  "spots_loop E lat lon radius_km [] seen rows w = (Inr rows, w)"
| "spots_loop E lat lon radius_km (d # ds) seen rows w =
     (if d_id d \<in> seen then spots_loop E lat lon radius_km ds seen rows w
      else
        (case haversine_km E lat lon (d_lat d) (d_lon d) of
           Inl e \<Rightarrow> (Inl e, w)
         | Inr dst \<Rightarrow>
             if dst \<le> radius_km then
               (case fetch_marine E (d_lat d) (d_lon d) w of
                  (live, w') \<Rightarrow>
                    spots_loop E lat lon radius_km ds (insert (d_id d) seen)
                      (rows @ [\<lparr>s_id = d_id d, s_name = d_name d, s_lat = d_lat d,
                                s_lon = d_lon d, s_distance_km = py_round dst 1,
                                s_notes = (case d_notes d of None \<Rightarrow> [] | Some t \<Rightarrow> t),
                                s_is_public = d_is_public d, s_live = live\<rparr>]) w')
             else spots_loop E lat lon radius_km ds (insert (d_id d) seen) rows w))"

text \<open>\<^verbatim>\<open>api_nearby_spots()\<close> over the table \<open>db\<close> for the caller \<open>current_user\<close>
  (\<open>None\<close>: not authenticated). \<^verbatim>\<open>rows.sort(key=...)\<close> is stable, as \<open>sort_key\<close> is.\<close>

definition api_nearby_spots ::
  "env \<Rightarrow> dive list \<Rightarrow> int option \<Rightarrow> nearby_query \<Rightarrow> world
     \<Rightarrow> (exn + nearby_response) \<times> world" where
  "api_nearby_spots E db current_user q w =
     (case arg_float E (n_lat q) of
        Inl e \<Rightarrow> (Inr (BadRequest ''lat/lon required'' 400), w)
      | Inr lat \<Rightarrow>
     (case arg_float E (n_lon q) of
        Inl e \<Rightarrow> (Inr (BadRequest ''lat/lon required'' 400), w)
      | Inr lon \<Rightarrow>
     (case arg_radius E (n_radius_km q) of
        Inl e \<Rightarrow> (Inl e, w)
      | Inr radius_km \<Rightarrow>
     (case spots_loop E lat lon radius_km (candidates db current_user) {} [] w of
        (Inl e, w') \<Rightarrow> (Inl e, w')
      | (Inr rows, w') \<Rightarrow> (Inr (Spots (take 8 (sort_key s_distance_km rows))), w')))))"

section \<open>Notions used to state the properties\<close>

text \<open>The requests \<^verbatim>\<open>_fetch_predictions_resilient\<close> issues when every attempt fails, in
  order: two per window.\<close>

definition planned_requests :: "string \<Rightarrow> request list" where
  "planned_requests station_id =
     concat (map (\<lambda>hrs. replicate 2 (DataGet station_id ''h'' (hrs + 6))) [36, 30, 24])"

text \<open>The outcome of the \<open>k\<close>-th attempt (from 0) of \<^verbatim>\<open>_fetch_predictions_resilient\<close>
  started in the state \<open>w\<close>.\<close>

definition attempt :: "env \<Rightarrow> string \<Rightarrow> world \<Rightarrow> nat \<Rightarrow> exn + tide_point list" where
  "attempt E station_id w k =
     hourly_of E (http_outcome E (length (calls w) + k) (planned_requests station_id ! k))"

text \<open>The outcome of the \<open>k\<close>-th attempt (from 0) of \<^verbatim>\<open>_fetch_hilo_resilient\<close> started in
  the state \<open>w\<close>.\<close>

definition hilo_attempt :: "env \<Rightarrow> string \<Rightarrow> world \<Rightarrow> nat \<Rightarrow> exn + tide_event list" where
  "hilo_attempt E station_id w k =
     hilo_of E (http_outcome E (length (calls w) + k) (DataGet station_id ''hilo'' 48))"

text \<open>The cache key of \<^verbatim>\<open>_fetch_marine\<close>, and whether the cache holds an entry for it that
  is younger than the TTL at the next reading of the clock.\<close>

definition marine_key :: "real \<Rightarrow> real \<Rightarrow> real \<times> real" where
  "marine_key lat lon = (py_round lat 2, py_round lon 2)"

definition marine_fresh :: "env \<Rightarrow> real \<Rightarrow> real \<Rightarrow> world \<Rightarrow> bool" where
  "marine_fresh E lat lon w =
     (case marine_cache w (marine_key lat lon) of
        Some c \<Rightarrow> clock E (ticks w) - m_ts c < MARINE_TTL
      | None \<Rightarrow> False)"

text \<open>A failed marine fetch: the request raises (a timeout, a connection error), the
  status is an error status, the body is not JSON, or building \<^verbatim>\<open>data\<close> raises.\<close>

definition marine_failure :: "http_result \<Rightarrow> bool" where
  "marine_failure r =
     (case r of
        Raises e \<Rightarrow> True
      | Response status body \<Rightarrow>
          (400 \<le> status \<and> status < 600) \<or>
          (case body of
             Inl e \<Rightarrow> True
           | Inr j \<Rightarrow> (case marine_data j of Inl e \<Rightarrow> True | Inr d \<Rightarrow> False)))"






text \<open>Every round of \<^verbatim>\<open>for delta in (0.5, 1.0, 2.5)\<close> ends in \<^verbatim>\<open>continue\<close>: each search is
  empty or its candidate is rejected.\<close>

definition all_rounds_continue :: "env \<Rightarrow> real \<Rightarrow> real \<Rightarrow> real \<Rightarrow> world \<Rightarrow> bool" where
  "all_rounds_continue E lat lon max_km w =
     (let r1 = search_box E lat lon max_km 0.5 w;
          r2 = search_box E lat lon max_km 1.0 (snd r1);
          r3 = search_box E lat lon max_km 2.5 (snd r2)
      in fst r1 = Continue \<and> fst r2 = Continue \<and> fst r3 = Continue)"

text \<open>\<open>w'\<close> differs from \<open>w\<close> only by further upstream requests.\<close>

definition more_calls :: "world \<Rightarrow> world \<Rightarrow> bool" where
  "more_calls w w' =
     (ticks w' = ticks w \<and> marine_cache w' = marine_cache w \<and> tides_cache w' = tides_cache w
      \<and> (\<exists>rest. calls w' = rest @ calls w))"

text \<open>The tide cache holds an entry for the station that is younger than the TTL at the
  next reading of the clock.\<close>

definition tides_fresh :: "env \<Rightarrow> string \<Rightarrow> world \<Rightarrow> bool" where
  "tides_fresh E station_id w =
     (case tides_cache w station_id of
        Some c \<Rightarrow> clock E (ticks w) - t_ts c < TIDES_TTL
      | None \<Rightarrow> False)"


text \<open>The dive is at most \<open>radius_km\<close> from the query point (and the haversine does not
  raise). \<open>row_of\<close>: the row is the dive's row, its \<^verbatim>\<open>distance_km\<close> the rounded distance.\<close>

definition in_radius :: "env \<Rightarrow> real \<Rightarrow> real \<Rightarrow> real \<Rightarrow> dive \<Rightarrow> bool" where
  "in_radius E lat lon radius_km d =
     (case haversine_km E lat lon (d_lat d) (d_lon d) of
        Inl e \<Rightarrow> False
      | Inr dst \<Rightarrow> dst \<le> radius_km)"

definition row_of :: "env \<Rightarrow> real \<Rightarrow> real \<Rightarrow> dive \<Rightarrow> spot \<Rightarrow> bool" where
  "row_of E lat lon d r =
     (case haversine_km E lat lon (d_lat d) (d_lon d) of
        Inl e \<Rightarrow> False
      | Inr dst \<Rightarrow>
          s_id r = d_id d \<and> s_name r = d_name d \<and> s_lat r = d_lat d \<and> s_lon r = d_lon d
          \<and> s_is_public r = d_is_public d \<and> s_distance_km r = py_round dst 1)"

section \<open>Concrete inputs\<close>

text \<open>The state of a process that has just started: nothing cached, nothing requested.\<close>

definition fresh_world :: world where
  "fresh_world = \<lparr>calls = [], ticks = 0, marine_cache = Map.empty, tides_cache = Map.empty\<rparr>"

text \<open>An environment around a given network and clock: no string parses as a float, every
  distance is 0.\<close>

definition env_of :: "(nat \<Rightarrow> request \<Rightarrow> http_result) \<Rightarrow> (nat \<Rightarrow> real) \<Rightarrow> env" where
  "env_of n c =
     \<lparr>net = n, clock = c, strfloat = (\<lambda>s. None), pystr = (\<lambda>v. []),
      haversine_km = (\<lambda>a b c d. Inr 0), tide_haversine_km = (\<lambda>a b c d. Inr 0)\<rparr>"

text \<open>Every upstream request answers 503.\<close>

definition env_503 :: env where
  "env_503 = env_of (\<lambda>k rq. Response 503 (Inl ValueError)) (\<lambda>k. 0)"

text \<open>The first two upstream requests answer 503, the later ones 404.\<close>

definition env_503_503_404 :: env where
  "env_503_503_404 =
     env_of (\<lambda>k rq. if k < 2 then Response 503 (Inl ValueError) else Response 404 (Inl ValueError))
       (\<lambda>k. 0)"

text \<open>Every upstream request answers 404.\<close>

definition env_404 :: env where
  "env_404 = env_of (\<lambda>k rq. Response 404 (Inl ValueError)) (\<lambda>k. 0)"




definition env_json_list :: env where
  "env_json_list = env_of (\<lambda>k rq. Response 200 (Inr (JArr []))) (\<lambda>k. 0)"

text \<open>A state whose marine cache holds an entry 1000 seconds older than time 0.\<close>

definition stale_marine_world :: world where
  "stale_marine_world =
     fresh_world\<lparr>marine_cache :=
       [(41, - 71.5) \<mapsto>
          \<lparr>m_ts = - 1000,
           m_data = \<lparr>wind_speed_kt = JNum 5.4, wind_dir = JNull, wave_height_m = JNum 1.25,
                     wave_dir = JNull, wave_period_s = JNull, sst_c = JNull\<rparr>\<rparr>]\<rparr>"

text \<open>A directory that always lists one station at (43, -56), 1300 km from anywhere.\<close>

definition env_far_station :: env where
  "env_far_station =
     \<lparr>net = (\<lambda>k rq. Response 200 (Inr (JObj [(''stations'',
               JArr [JObj [(''id'', JStr ''9999999''), (''name'', JStr ''Far''),
                           (''lat'', JNum 43), (''lng'', JNum (- 56))]])]))),
      clock = (\<lambda>k. 0), strfloat = (\<lambda>s. None), pystr = (\<lambda>v. []),
      haversine_km = (\<lambda>a b c d. Inr 0), tide_haversine_km = (\<lambda>a b c d. Inr 1300)\<rparr>"

text \<open>A directory that lists one station, 14 km away, whose entry has no \<^verbatim>\<open>id\<close>.\<close>

definition env_no_id :: env where
  "env_no_id =
     \<lparr>net = (\<lambda>k rq. Response 200 (Inr (JObj [(''stations'',
               JArr [JObj [(''lat'', JNum 41.1), (''lng'', JNum (- 71.1))]])]))),
      clock = (\<lambda>k. 0), strfloat = (\<lambda>s. None), pystr = (\<lambda>v. []),
      haversine_km = (\<lambda>a b c d. Inr 0), tide_haversine_km = (\<lambda>a b c d. Inr 14)\<rparr>"

text \<open>A tides query without arguments; a state whose tide cache holds an entry for Newport
  that is 11 minutes older than time 0; a data service that answers one prediction.\<close>

definition q_default :: tide_query where
  "q_default = \<lparr>q_station = None, q_lat = None, q_lon = None, q_max_km = None\<rparr>"

definition stale_tides_world :: world where
  "stale_tides_world =
     fresh_world\<lparr>tides_cache :=
       [''8452660'' \<mapsto>
          \<lparr>t_ts = - 660, t_meta = newport_ri,
           t_series = [\<lparr>p_t = JStr ''2024-01-01 00:00'', p_v = 1.5\<rparr>], t_hilo = [],
           t_stale = False\<rparr>]\<rparr>"


text \<open>The first upstream request answers one prediction, every later one 404.\<close>

definition env_ok_then_404 :: env where
  "env_ok_then_404 =
     env_of (\<lambda>k rq. if k = 0
        then Response 200 (Inr (JObj [(''predictions'',
               JArr [JObj [(''t'', JStr ''2024-01-01 00:00''), (''v'', JNum 1.5)]])]))
        else Response 404 (Inl ValueError)) (\<lambda>k. 0)"

text \<open>An environment for the nearby-spots endpoint (the marine service is down, a crude
  distance), twenty public dives north of (41.0, -71.5), and a query at that point.\<close>

definition env_nearby :: env where
  "env_nearby =
     \<lparr>net = (\<lambda>k rq. Raises RequestException), clock = (\<lambda>k. 0),
      strfloat = (\<lambda>s. if s = ''41.0'' then Some 41
                       else if s = ''-71.5'' then Some (- 71.5) else None),
      pystr = (\<lambda>v. []),
      haversine_km = (\<lambda>a b c d. Inr (111 * (\<bar>a - c\<bar> + \<bar>b - d\<bar>))),
      tide_haversine_km = (\<lambda>a b c d. Inr 0)\<rparr>"

definition dive_no :: "nat \<Rightarrow> dive" where
  "dive_no i =
     \<lparr>d_id = int i, d_user_id = 1, d_name = ''spot'', d_lat = 41 + real i / 100,
      d_lon = - 71.5, d_notes = None, d_is_public = True\<rparr>"

definition db20 :: "dive list" where
  "db20 = map dive_no [1..<21]"

definition q_nearby :: nearby_query where
  "q_nearby = \<lparr>n_lat = Some ''41.0'', n_lon = Some ''-71.5'', n_radius_km = None\<rparr>"

text \<open>A query at (64, -106) by the user 7, who owns a private dive at (-64.00000001, 74),
  almost the antipode; twenty public dives lie north of the query point, within 23 km. There
  the double arithmetic of \<^verbatim>\<open>_haversine_km\<close> gives \<^verbatim>\<open>a = 1.0000000000000004\<close>, whose
  square root is outside the domain of \<^verbatim>\<open>math.asin\<close>: ValueError.\<close>

definition env_antipodal :: env where
  "env_antipodal =
     \<lparr>net = (\<lambda>k rq. Raises RequestException), clock = (\<lambda>k. 0),
      strfloat = (\<lambda>s. if s = ''64'' then Some 64
                       else if s = ''-106'' then Some (- 106) else None),
      pystr = (\<lambda>v. []),
      haversine_km = (\<lambda>a b c d.
         if a = 64 \<and> b = - 106 \<and> c = - 64.00000001 \<and> d = 74 then Inl ValueError
         else Inr (111 * (\<bar>a - c\<bar> + \<bar>b - d\<bar>))),
      tide_haversine_km = (\<lambda>a b c d. Inr 0)\<rparr>"

definition arctic_dive :: "nat \<Rightarrow> dive" where
  "arctic_dive i =
     \<lparr>d_id = int i, d_user_id = 1, d_name = ''spot'', d_lat = 64 + real i / 100,
      d_lon = - 106, d_notes = None, d_is_public = True\<rparr>"

definition antipodal_dive :: dive where
  "antipodal_dive =
     \<lparr>d_id = 21, d_user_id = 7, d_name = ''mine'', d_lat = - 64.00000001, d_lon = 74,
      d_notes = None, d_is_public = False\<rparr>"

definition db21 :: "dive list" where
  "db21 = map arctic_dive [1..<21] @ [antipodal_dive]"

definition q_antipodal :: nearby_query where
  "q_antipodal = \<lparr>n_lat = Some ''64'', n_lon = Some ''-106'', n_radius_km = None\<rparr>"

section \<open>The retry loop of the predictions fetch\<close>

lemma fetch_hourly_eq:
  "fetch_hourly_predictions E sid hrs w =
     (hourly_of E (http_outcome E (length (calls w)) (DataGet sid ''h'' (hrs + 6))),
      w\<lparr>calls := DataGet sid ''h'' (hrs + 6) # calls w\<rparr>)"
  by (simp add: fetch_hourly_predictions_def get_json_def)

lemma tries_calls_le:
  "length (calls (snd (predictions_tries E sid hrs n w))) \<le> length (calls w) + n"
proof (induction n arbitrary: w)
  case 0
  show ?case by simp
next
  case (Suc n)
  have "length (calls (snd (predictions_tries E sid hrs n
          (w\<lparr>calls := DataGet sid ''h'' (hrs + 6) # calls w\<rparr>)))) \<le> length (calls w) + Suc n"
    using Suc.IH[of "w\<lparr>calls := DataGet sid ''h'' (hrs + 6) # calls w\<rparr>"] by simp
  then show ?case
    by (simp add: fetch_hourly_eq split: sum.split)
qed

lemma windows_calls_le:
  "length (calls (snd (predictions_windows E sid hs w))) \<le> length (calls w) + 2 * length hs"
proof (induction hs arbitrary: w)
  case Nil
  show ?case by simp
next
  case (Cons h hs)
  obtain r w' where t: "predictions_tries E sid h 2 w = (r, w')"
    by (cases "predictions_tries E sid h 2 w")
  have a: "length (calls w') \<le> length (calls w) + 2"
    using tries_calls_le[of E sid h 2 w] t by simp
  show ?case
  proof (cases r)
    case Exhausted
    then show ?thesis using t a Cons.IH[of w'] by simp
  qed (use t a in simp_all)
qed

lemma resilient_calls_le:
  "length (calls (snd (fetch_predictions_resilient E sid w))) \<le> length (calls w) + 6"
  using windows_calls_le[of E sid "[36, 30, 24]" w] by (simp add: fetch_predictions_resilient_def)

lemma planned_requests_eq:
  "planned_requests sid =
     [DataGet sid ''h'' 42, DataGet sid ''h'' 42, DataGet sid ''h'' 36, DataGet sid ''h'' 36,
      DataGet sid ''h'' 30, DataGet sid ''h'' 30]"
  by (simp add: planned_requests_def numeral_2_eq_2)

lemma attempt_simps:
  "attempt E sid w 0 = hourly_of E (http_outcome E (length (calls w)) (DataGet sid ''h'' 42))"
  "attempt E sid w 1 =
     hourly_of E (http_outcome E (Suc (length (calls w))) (DataGet sid ''h'' 42))"
  "attempt E sid w 2 =
     hourly_of E (http_outcome E (Suc (Suc (length (calls w)))) (DataGet sid ''h'' 36))"
  "attempt E sid w 3 =
     hourly_of E (http_outcome E (Suc (Suc (Suc (length (calls w))))) (DataGet sid ''h'' 36))"
  "attempt E sid w 4 =
     hourly_of E (http_outcome E (Suc (Suc (Suc (Suc (length (calls w)))))) (DataGet sid ''h'' 30))"
  "attempt E sid w 5 =
     hourly_of E (http_outcome E (Suc (Suc (Suc (Suc (Suc (length (calls w)))))))
       (DataGet sid ''h'' 30))"
  by (simp_all add: attempt_def planned_requests_eq eval_nat_numeral)

lemmas unroll =
  fetch_predictions_resilient_def numeral_2_eq_2 fetch_hourly_eq planned_requests_eq

lemma abort_at:
  assumes n: "n < 6"
    and pre: "\<And>k. k < n \<Longrightarrow> \<exists>e. attempt E sid w k = Inl e \<and> retryable e"
    and at: "attempt E sid w n = Inl e" and nr: "\<not> retryable e"
  shows "fetch_predictions_resilient E sid w =
           (Inl e, w\<lparr>calls := rev (take (Suc n) (planned_requests sid)) @ calls w\<rparr>)"
proof -
  consider "n = 0" | "n = 1" | "n = 2" | "n = 3" | "n = 4" | "n = 5" using n by linarith
  then show ?thesis
  proof cases
    case 1
    note a = at[unfolded 1 attempt_simps]
    show ?thesis unfolding 1 using a nr by (simp add: unroll)
  next
    case 2
    obtain e0 where f0: "attempt E sid w 0 = Inl e0" "retryable e0" using pre[of 0] 2 by auto
    note a = at[unfolded 2 attempt_simps] and g0 = f0[unfolded attempt_simps]
    show ?thesis unfolding 2 using a nr g0 by (simp add: unroll)
  next
    case 3
    obtain e0 where f0: "attempt E sid w 0 = Inl e0" "retryable e0" using pre[of 0] 3 by auto
    obtain e1 where f1: "attempt E sid w 1 = Inl e1" "retryable e1" using pre[of 1] 3 by auto
    note a = at[unfolded 3 attempt_simps] and g0 = f0[unfolded attempt_simps]
      and g1 = f1[unfolded attempt_simps]
    show ?thesis unfolding 3 using a nr g0 g1 by (simp add: unroll)
  next
    case 4
    obtain e0 where f0: "attempt E sid w 0 = Inl e0" "retryable e0" using pre[of 0] 4 by auto
    obtain e1 where f1: "attempt E sid w 1 = Inl e1" "retryable e1" using pre[of 1] 4 by auto
    obtain e2 where f2: "attempt E sid w 2 = Inl e2" "retryable e2" using pre[of 2] 4 by auto
    note a = at[unfolded 4 attempt_simps] and g0 = f0[unfolded attempt_simps]
      and g1 = f1[unfolded attempt_simps] and g2 = f2[unfolded attempt_simps]
    show ?thesis unfolding 4 using a nr g0 g1 g2 by (simp add: unroll eval_nat_numeral)
  next
    case 5
    obtain e0 where f0: "attempt E sid w 0 = Inl e0" "retryable e0" using pre[of 0] 5 by auto
    obtain e1 where f1: "attempt E sid w 1 = Inl e1" "retryable e1" using pre[of 1] 5 by auto
    obtain e2 where f2: "attempt E sid w 2 = Inl e2" "retryable e2" using pre[of 2] 5 by auto
    obtain e3 where f3: "attempt E sid w 3 = Inl e3" "retryable e3" using pre[of 3] 5 by auto
    note a = at[unfolded 5 attempt_simps] and g0 = f0[unfolded attempt_simps]
      and g1 = f1[unfolded attempt_simps] and g2 = f2[unfolded attempt_simps]
      and g3 = f3[unfolded attempt_simps]
    show ?thesis unfolding 5 using a nr g0 g1 g2 g3 by (simp add: unroll eval_nat_numeral)
  next
    case 6
    obtain e0 where f0: "attempt E sid w 0 = Inl e0" "retryable e0" using pre[of 0] 6 by auto
    obtain e1 where f1: "attempt E sid w 1 = Inl e1" "retryable e1" using pre[of 1] 6 by auto
    obtain e2 where f2: "attempt E sid w 2 = Inl e2" "retryable e2" using pre[of 2] 6 by auto
    obtain e3 where f3: "attempt E sid w 3 = Inl e3" "retryable e3" using pre[of 3] 6 by auto
    obtain e4 where f4: "attempt E sid w 4 = Inl e4" "retryable e4" using pre[of 4] 6 by auto
    note a = at[unfolded 6 attempt_simps] and g0 = f0[unfolded attempt_simps]
      and g1 = f1[unfolded attempt_simps] and g2 = f2[unfolded attempt_simps]
      and g3 = f3[unfolded attempt_simps] and g4 = f4[unfolded attempt_simps]
    show ?thesis unfolding 6 using a nr g0 g1 g2 g3 g4 by (simp add: unroll eval_nat_numeral)
  qed
qed

lemma all_fail:
  assumes pre: "\<And>k. k < 6 \<Longrightarrow> \<exists>e. attempt E sid w k = Inl e \<and> retryable e"
  shows "fetch_predictions_resilient E sid w =
           (Inl (RuntimeError ''NOAA predictions unavailable''),
            w\<lparr>calls := rev (planned_requests sid) @ calls w\<rparr>)"
proof -
  obtain e0 where f0: "attempt E sid w 0 = Inl e0" "retryable e0" using pre[of 0] by auto
  obtain e1 where f1: "attempt E sid w 1 = Inl e1" "retryable e1" using pre[of 1] by auto
  obtain e2 where f2: "attempt E sid w 2 = Inl e2" "retryable e2" using pre[of 2] by auto
  obtain e3 where f3: "attempt E sid w 3 = Inl e3" "retryable e3" using pre[of 3] by auto
  obtain e4 where f4: "attempt E sid w 4 = Inl e4" "retryable e4" using pre[of 4] by auto
  obtain e5 where f5: "attempt E sid w 5 = Inl e5" "retryable e5" using pre[of 5] by auto
  note g0 = f0[unfolded attempt_simps] and g1 = f1[unfolded attempt_simps]
    and g2 = f2[unfolded attempt_simps] and g3 = f3[unfolded attempt_simps]
    and g4 = f4[unfolded attempt_simps] and g5 = f5[unfolded attempt_simps]
  show ?thesis using g0 g1 g2 g3 g4 g5 by (simp add: unroll)
qed

lemma attempt_503:
  assumes "\<forall>k rq. \<exists>body. net E k rq = Response 503 body"
  shows "attempt E sid w k = Inl (HTTPError (Some 503))"
proof -
  obtain body where
    "net E (length (calls w) + k) (planned_requests sid ! k) = Response 503 body"
    using assms by blast
  then show ?thesis by (simp add: attempt_def http_outcome_def hourly_of_def)
qed

text \<open>
  Claim C2. \<^verbatim>\<open>_fetch_predictions_resilient\<close> plans six requests, two for each of the windows
  36, 30 and 24 hours (ranges 42, 36 and 30), and never issues more than six. When every
  upstream answer is a 503 it issues exactly these six and then raises the RuntimeError.
  When the attempts before the \<open>n\<close>-th failed with retryable errors and the \<open>n\<close>-th raises an
  HTTPError whose code is not 502, 503 or 504, that error leaves the function and the
  \<open>n\<close>-th request is the last one issued.
\<close>

theorem predictions_retry_policy:
  "planned_requests sid =
     [DataGet sid ''h'' (36 + 6), DataGet sid ''h'' (36 + 6), DataGet sid ''h'' (30 + 6),
      DataGet sid ''h'' (30 + 6), DataGet sid ''h'' (24 + 6), DataGet sid ''h'' (24 + 6)]
   \<and> length (calls (snd (fetch_predictions_resilient E sid w))) \<le> length (calls w) + 6
   \<and> ((\<forall>k rq. \<exists>body. net E k rq = Response 503 body) \<longrightarrow>
        fetch_predictions_resilient E sid w =
          (Inl (RuntimeError ''NOAA predictions unavailable''),
           w\<lparr>calls := rev (planned_requests sid) @ calls w\<rparr>))
   \<and> (\<forall>n c. n < 6 \<and> (\<forall>k<n. \<exists>e. attempt E sid w k = Inl e \<and> retryable e)
          \<and> attempt E sid w n = Inl (HTTPError c) \<and> c \<notin> {Some 502, Some 503, Some 504} \<longrightarrow>
        fetch_predictions_resilient E sid w =
          (Inl (HTTPError c), w\<lparr>calls := rev (take (Suc n) (planned_requests sid)) @ calls w\<rparr>))"
proof (intro conjI impI allI)
  show "planned_requests sid =
     [DataGet sid ''h'' (36 + 6), DataGet sid ''h'' (36 + 6), DataGet sid ''h'' (30 + 6),
      DataGet sid ''h'' (30 + 6), DataGet sid ''h'' (24 + 6), DataGet sid ''h'' (24 + 6)]"
    by (simp add: planned_requests_eq)
next
  show "length (calls (snd (fetch_predictions_resilient E sid w))) \<le> length (calls w) + 6"
    by (rule resilient_calls_le)
next
  assume a: "\<forall>k rq. \<exists>body. net E k rq = Response 503 body"
  show "fetch_predictions_resilient E sid w =
          (Inl (RuntimeError ''NOAA predictions unavailable''),
           w\<lparr>calls := rev (planned_requests sid) @ calls w\<rparr>)"
    by (rule all_fail) (simp add: attempt_503[OF a])
next
  fix n c
  assume h: "n < 6 \<and> (\<forall>k<n. \<exists>e. attempt E sid w k = Inl e \<and> retryable e)
          \<and> attempt E sid w n = Inl (HTTPError c) \<and> c \<notin> {Some 502, Some 503, Some 504}"
  show "fetch_predictions_resilient E sid w =
          (Inl (HTTPError c), w\<lparr>calls := rev (take (Suc n) (planned_requests sid)) @ calls w\<rparr>)"
    by (rule abort_at) (use h in auto)
qed

theorem predictions_retry_policy_witness:
  "fetch_predictions_resilient env_503 ''8452660'' fresh_world =
     (Inl (RuntimeError ''NOAA predictions unavailable''),
      fresh_world\<lparr>calls :=
        [DataGet ''8452660'' ''h'' 30, DataGet ''8452660'' ''h'' 30,
         DataGet ''8452660'' ''h'' 36, DataGet ''8452660'' ''h'' 36,
         DataGet ''8452660'' ''h'' 42, DataGet ''8452660'' ''h'' 42]\<rparr>)
   \<and> fetch_predictions_resilient env_503_503_404 ''8452660'' fresh_world =
     (Inl (HTTPError (Some 404)),
      fresh_world\<lparr>calls :=
        [DataGet ''8452660'' ''h'' 36, DataGet ''8452660'' ''h'' 42,
         DataGet ''8452660'' ''h'' 42]\<rparr>)"
proof
  have "\<forall>k rq. \<exists>body. net env_503 k rq = Response 503 body"
    by (simp add: env_503_def env_of_def)
  then show "fetch_predictions_resilient env_503 ''8452660'' fresh_world =
     (Inl (RuntimeError ''NOAA predictions unavailable''),
      fresh_world\<lparr>calls :=
        [DataGet ''8452660'' ''h'' 30, DataGet ''8452660'' ''h'' 30,
         DataGet ''8452660'' ''h'' 36, DataGet ''8452660'' ''h'' 36,
         DataGet ''8452660'' ''h'' 42, DataGet ''8452660'' ''h'' 42]\<rparr>)"
    using predictions_retry_policy[of "''8452660''" env_503 fresh_world]
    by (simp add: fresh_world_def)
next
  have pre: "\<forall>k<2. \<exists>e. attempt env_503_503_404 ''8452660'' fresh_world k = Inl e \<and> retryable e"
    by (simp add: attempt_def http_outcome_def hourly_of_def env_503_503_404_def env_of_def
        fresh_world_def)
  have at: "attempt env_503_503_404 ''8452660'' fresh_world 2 = Inl (HTTPError (Some 404))"
    by (simp add: attempt_def http_outcome_def hourly_of_def env_503_503_404_def env_of_def
        fresh_world_def)
  have "(2::nat) < 6 \<and> (\<forall>k<2. \<exists>e. attempt env_503_503_404 ''8452660'' fresh_world k = Inl e \<and> retryable e)
      \<and> attempt env_503_503_404 ''8452660'' fresh_world 2 = Inl (HTTPError (Some 404))
      \<and> Some (404::nat) \<notin> {Some 502, Some 503, Some 504}"
    using pre at by simp
  then have "fetch_predictions_resilient env_503_503_404 ''8452660'' fresh_world =
      (Inl (HTTPError (Some 404)),
       fresh_world\<lparr>calls := rev (take (Suc 2) (planned_requests ''8452660'')) @ calls fresh_world\<rparr>)"
    using predictions_retry_policy[of "''8452660''" env_503_503_404 fresh_world] by blast
  then show "fetch_predictions_resilient env_503_503_404 ''8452660'' fresh_world =
     (Inl (HTTPError (Some 404)),
      fresh_world\<lparr>calls :=
        [DataGet ''8452660'' ''h'' 36, DataGet ''8452660'' ''h'' 42,
         DataGet ''8452660'' ''h'' 42]\<rparr>)"
    by (simp add: planned_requests_eq fresh_world_def eval_nat_numeral)
qed

section \<open>The retry loop of the high/low fetch\<close>

lemma fetch_hilo_eq:
  "fetch_highs_lows E sid w =
     (hilo_of E (http_outcome E (length (calls w)) (DataGet sid ''hilo'' 48)),
      w\<lparr>calls := DataGet sid ''hilo'' 48 # calls w\<rparr>)"
  by (simp add: fetch_highs_lows_def get_json_def)

lemma hilo_unrolled:
  "fetch_hilo_resilient E sid w =
     (case hilo_attempt E sid w 0 of
        Inr out \<Rightarrow> (Inr out, w\<lparr>calls := DataGet sid ''hilo'' 48 # calls w\<rparr>)
      | Inl e \<Rightarrow>
          if \<not> retryable e then (Inl e, w\<lparr>calls := DataGet sid ''hilo'' 48 # calls w\<rparr>)
          else
            (case hilo_attempt E sid w 1 of
               Inr out \<Rightarrow>
                 (Inr out, w\<lparr>calls := DataGet sid ''hilo'' 48 # DataGet sid ''hilo'' 48 # calls w\<rparr>)
             | Inl e' \<Rightarrow>
                 if \<not> retryable e'
                 then (Inl e', w\<lparr>calls := DataGet sid ''hilo'' 48 # DataGet sid ''hilo'' 48 # calls w\<rparr>)
                 else (Inr [], w\<lparr>calls := DataGet sid ''hilo'' 48 # DataGet sid ''hilo'' 48 # calls w\<rparr>)))"
  by (simp add: fetch_hilo_resilient_def numeral_2_eq_2 fetch_hilo_eq hilo_attempt_def split: sum.split)

text \<open>
  Claim C3 fails on the code: \<^verbatim>\<open>_fetch_hilo_resilient\<close> does propagate a failure. When the
  high/low request answers 404, the \<^verbatim>\<open>raise\<close> of the \<^verbatim>\<open>except requests.HTTPError\<close> clause
  sends the HTTPError out of the function after one request, although the comment at its end
  says that a failed hilo fetch just returns the empty list. In \<^verbatim>\<open>api_tides\<close> the exception
  reaches \<^verbatim>\<open>except Exception\<close>: the predictions that were fetched are dropped, nothing is
  cached, and with no cached entry the answer is the 502.
\<close>

theorem hilo_fetch_raises:
  "fetch_hilo_resilient env_404 ''8452660'' fresh_world =
     (Inl (HTTPError (Some 404)), fresh_world\<lparr>calls := [DataGet ''8452660'' ''hilo'' 48]\<rparr>)
   \<and> api_tides env_ok_then_404 q_default fresh_world =
     (Inr (Unavailable ''Tide data temporarily unavailable from NOAA.'' 502),
      fresh_world\<lparr>ticks := 1,
        calls := [DataGet ''8452660'' ''hilo'' 48, DataGet ''8452660'' ''h'' 42]\<rparr>)"
  by (simp add: api_tides_def choose_station_def q_default_def newport_ri_def tides_bundle_def
      time_time_def live_bundle_def stale_or_unavailable_def fetch_predictions_resilient_def
      fetch_hilo_resilient_def numeral_2_eq_2 fetch_hourly_eq fetch_hilo_eq http_outcome_def
      hourly_of_def hilo_of_def predictions_of_def point_of_def env_404_def
      env_ok_then_404_def env_of_def fresh_world_def)

section \<open>Marine conditions: failures and the snapshot\<close>

lemma fetch_marine_cases:
  "fetch_marine E lat lon w =
     (if marine_fresh E lat lon w
      then (Some (m_data (the (marine_cache w (marine_key lat lon)))), w\<lparr>ticks := Suc (ticks w)\<rparr>)
      else (case http_outcome E (length (calls w)) (MarineGet lat lon) of
              Inl e \<Rightarrow> (None, w\<lparr>ticks := Suc (ticks w), calls := MarineGet lat lon # calls w\<rparr>)
            | Inr j \<Rightarrow>
               (case marine_data j of
                  Inl e \<Rightarrow> (None, w\<lparr>ticks := Suc (ticks w), calls := MarineGet lat lon # calls w\<rparr>)
                | Inr d \<Rightarrow> (Some d, w\<lparr>ticks := Suc (ticks w), calls := MarineGet lat lon # calls w,
                      marine_cache := (marine_cache w)(marine_key lat lon \<mapsto> \<lparr>m_ts = clock E (ticks w), m_data = d\<rparr>)\<rparr>))))"
  by (simp add: fetch_marine_def marine_fresh_def marine_key_def time_time_def get_json_def Let_def
      split: option.split sum.split)

lemma marine_failure_outcome:
  "marine_failure (net E k rq) \<Longrightarrow>
     (\<exists>e. http_outcome E k rq = Inl e) \<or> (\<exists>j e. http_outcome E k rq = Inr j \<and> marine_data j = Inl e)"
  by (auto simp: marine_failure_def http_outcome_def split: http_result.splits sum.splits)

text \<open>
  Claim C8. Whenever \<^verbatim>\<open>_fetch_marine\<close> returns \<^verbatim>\<open>None\<close> the marine cache is what it was
  before the call. When the cache has no fresh entry for the key and the fetch fails (the
  request raises, the status is an error status, the body is not JSON, or building the
  snapshot raises), the call returns \<^verbatim>\<open>None\<close> and changes nothing but the log of requests
  and the clock: no entry is created or overwritten, and an expired entry is not served.
\<close>

theorem marine_failure_not_cached:
  "(fst (fetch_marine E lat lon w) = None \<longrightarrow>
      marine_cache (snd (fetch_marine E lat lon w)) = marine_cache w)
   \<and> (\<not> marine_fresh E lat lon w \<and> marine_failure (net E (length (calls w)) (MarineGet lat lon)) \<longrightarrow>
      fetch_marine E lat lon w =
        (None, w\<lparr>ticks := Suc (ticks w), calls := MarineGet lat lon # calls w\<rparr>))"
proof (intro conjI impI)
  assume "fst (fetch_marine E lat lon w) = None"
  then show "marine_cache (snd (fetch_marine E lat lon w)) = marine_cache w"
    by (simp add: fetch_marine_cases split: if_splits sum.splits)
next
  assume a: "\<not> marine_fresh E lat lon w \<and> marine_failure (net E (length (calls w)) (MarineGet lat lon))"
  then show "fetch_marine E lat lon w =
        (None, w\<lparr>ticks := Suc (ticks w), calls := MarineGet lat lon # calls w\<rparr>)"
    using marine_failure_outcome[of E "length (calls w)" "MarineGet lat lon"]
    by (auto simp: fetch_marine_cases)
qed

theorem marine_failure_not_cached_witness:
  "fetch_marine env_503 41 (- 71.5) stale_marine_world =
     (None, stale_marine_world\<lparr>ticks := 1, calls := [MarineGet 41 (- 71.5)]\<rparr>)
   \<and> marine_cache stale_marine_world (41, - 71.5) \<noteq> None
   \<and> fetch_marine env_json_list 41 (- 71.5) fresh_world =
     (None, fresh_world\<lparr>ticks := 1, calls := [MarineGet 41 (- 71.5)]\<rparr>)"
proof (intro conjI)
  have "\<not> marine_fresh env_503 41 (- 71.5) stale_marine_world
     \<and> marine_failure (net env_503 (length (calls stale_marine_world)) (MarineGet 41 (- 71.5)))"
    by (simp add: marine_fresh_def marine_key_def py_round_def stale_marine_world_def
        fresh_world_def env_503_def env_of_def MARINE_TTL_def marine_failure_def)
  then show "fetch_marine env_503 41 (- 71.5) stale_marine_world =
     (None, stale_marine_world\<lparr>ticks := 1, calls := [MarineGet 41 (- 71.5)]\<rparr>)"
    using marine_failure_not_cached[of env_503 41 "- 71.5" stale_marine_world]
    by (simp add: stale_marine_world_def fresh_world_def)
next
  show "marine_cache stale_marine_world (41, - 71.5) \<noteq> None"
    by (simp add: stale_marine_world_def)
next
  have "\<not> marine_fresh env_json_list 41 (- 71.5) fresh_world
     \<and> marine_failure (net env_json_list (length (calls fresh_world)) (MarineGet 41 (- 71.5)))"
    by (simp add: marine_fresh_def fresh_world_def env_json_list_def env_of_def
        marine_failure_def marine_data_def)
  then show "fetch_marine env_json_list 41 (- 71.5) fresh_world =
     (None, fresh_world\<lparr>ticks := 1, calls := [MarineGet 41 (- 71.5)]\<rparr>)"
    using marine_failure_not_cached[of env_json_list 41 "- 71.5" fresh_world]
    by (simp add: fresh_world_def)
qed








section \<open>The station resolver\<close>

lemma scan_active_inv:
  "scan_active E lat lon ss (best, bd) = Inr (Some b, d) \<Longrightarrow>
   (\<forall>b'. best = Some b' \<longrightarrow> station_dist E lat lon b' = Inr bd) \<Longrightarrow>
   station_dist E lat lon b = Inr d"
proof (induction ss arbitrary: best bd)
  case Nil
  then show ?case by simp
next
  case (Cons s ss)
  show ?case
  proof (cases "station_dist E lat lon s")
    case (Inl e)
    then show ?thesis using Cons by simp
  next
    case (Inr ds)
    then show ?thesis using Cons.prems Cons.IH[of "Some s" ds] Cons.IH[of best bd]
      by (auto split: sum.splits if_splits)
  qed
qed

lemma scan_any_inv:
  "scan_any E lat lon ss (best, bd) = (Some b, d) \<Longrightarrow>
   (\<forall>b'. best = Some b' \<longrightarrow> station_dist E lat lon b' = Inr bd) \<Longrightarrow>
   station_dist E lat lon b = Inr d"
proof (induction ss arbitrary: best bd)
  case Nil
  then show ?case by simp
next
  case (Cons s ss)
  show ?case
  proof (cases "station_dist E lat lon s")
    case (Inl e)
    then show ?thesis using Cons by simp
  next
    case (Inr ds)
    then show ?thesis using Cons.prems Cons.IH[of "Some s" ds] Cons.IH[of best bd]
      by (auto split: if_splits)
  qed
qed

lemma pick_best_dist:
  assumes "pick_best E lat lon ss = Inr (Some b, d)"
  shows "station_dist E lat lon b = Inr d"
proof (cases "scan_active E lat lon ss (None, 10 ^ 12)")
  case (Inl e)
  then show ?thesis using assms by (simp add: pick_best_def)
next
  case (Inr r)
  obtain best bd where r: "r = (best, bd)" by (cases r)
  show ?thesis
  proof (cases best)
    case None
    then have "scan_any E lat lon ss (None, bd) = (Some b, d)"
      using assms Inr r by (simp add: pick_best_def)
    then show ?thesis by (rule scan_any_inv) simp
  next
    case (Some b')
    then have "scan_active E lat lon ss (None, 10 ^ 12) = Inr (Some b, d)"
      using assms Inr r by (simp add: pick_best_def)
    then show ?thesis by (rule scan_active_inv) simp
  qed
qed

lemma station_dist_coords:
  assumes "station_dist E lat lon b = Inr d"
  shows "\<exists>b_lat b_lon. coords E b = Inr (b_lat, b_lon)"
  using assms by (auto simp: station_dist_def split: sum.splits)

lemma coords_truthy: "coords E b = Inr p \<Longrightarrow> truthy b"
  by (cases b) (auto simp: coords_def split: sum.splits option.splits)

lemma coords_too_far:
  "coords E b = Inr (b_lat, b_lon) \<Longrightarrow>
   too_far E lat lon b = Inr (\<bar>b_lat - lat\<bar> > 10 \<and> \<bar>b_lon - lon\<bar> > 10)"
  by (auto simp: coords_def too_far_def split: sum.splits)

text \<open>
  Claim C6. When a round of the search has a best candidate \<open>b\<close> at distance \<open>d\<close>, the
  round goes on to the next radius exactly when \<open>d\<close> exceeds \<^verbatim>\<open>max_km\<close>, or the candidate is
  more than 10 degrees of latitude and also more than 10 degrees of longitude away from the
  query point; otherwise the candidate is the result of the resolver. A candidate 15 degrees
  away in longitude and 2 degrees in latitude, within \<^verbatim>\<open>max_km\<close>, is accepted.
\<close>

theorem station_sanity_guard:
  "directory_stations E (StationsGet (lon - delta) (lat - delta) (lon + delta) (lat + delta)) w
       = (stations, w')
   \<and> truthy stations \<and> py_iter stations = Inr ss \<and> pick_best E lat lon ss = Inr (Some b, d)
   \<longrightarrow> (\<exists>b_lat b_lon. coords E b = Inr (b_lat, b_lon)
        \<and> search_box E lat lon max_km delta w =
            (if d > max_km \<or> (\<bar>b_lat - lat\<bar> > 10 \<and> \<bar>b_lon - lon\<bar> > 10) then Continue
             else (case station_of E b d of Inl e \<Rightarrow> Raise e | Inr st \<Rightarrow> Return st), w'))"
proof (intro impI, elim conjE)
  assume a: "directory_stations E (StationsGet (lon - delta) (lat - delta) (lon + delta) (lat + delta)) w
       = (stations, w')" "truthy stations" "py_iter stations = Inr ss"
     "pick_best E lat lon ss = Inr (Some b, d)"
  obtain b_lat b_lon where c: "coords E b = Inr (b_lat, b_lon)"
    using station_dist_coords[OF pick_best_dist[OF a(4)]] by blast
  have t: "truthy b" using c by (rule coords_truthy)
  have "search_box E lat lon max_km delta w =
            (if d > max_km \<or> (\<bar>b_lat - lat\<bar> > 10 \<and> \<bar>b_lon - lon\<bar> > 10) then Continue
             else (case station_of E b d of Inl e \<Rightarrow> Raise e | Inr st \<Rightarrow> Return st), w')"
    using a t coords_too_far[OF c, of lat lon]
    by (auto simp: search_box_def split: sum.splits)
  then show "\<exists>b_lat b_lon. coords E b = Inr (b_lat, b_lon)
        \<and> search_box E lat lon max_km delta w =
            (if d > max_km \<or> (\<bar>b_lat - lat\<bar> > 10 \<and> \<bar>b_lon - lon\<bar> > 10) then Continue
             else (case station_of E b d of Inl e \<Rightarrow> Raise e | Inr st \<Rightarrow> Return st), w')"
    using c by blast
qed

lemmas station_eval =
  search_box_def directory_stations_def get_json_def http_outcome_def stations_of_def
  py_or_def pick_best_def station_dist_def coords_def too_far_def station_of_def
  float_or_none_def py_str_def py_round_def Let_def

theorem station_sanity_guard_witness:
  "search_box env_far_station 41 (- 71) 2000 0.5 fresh_world =
     (Return \<lparr>st_id = ''9999999'', st_name = JStr ''Far'', st_state = JStr [],
              st_lat = Some 43, st_lon = Some (- 56), st_distance_km = Some (Some 1300)\<rparr>,
      fresh_world\<lparr>calls := [StationsGet (- 71.5) 40.5 (- 70.5) 41.5]\<rparr>)
   \<and> search_box env_far_station 31 (- 71) 2000 0.5 fresh_world =
     (Continue, fresh_world\<lparr>calls := [StationsGet (- 71.5) 30.5 (- 70.5) 31.5]\<rparr>)
   \<and> search_box env_far_station 41 (- 71) 250 0.5 fresh_world =
     (Continue, fresh_world\<lparr>calls := [StationsGet (- 71.5) 40.5 (- 70.5) 41.5]\<rparr>)"
proof -
  let ?b = "JObj [(''id'', JStr ''9999999''), (''name'', JStr ''Far''),
                           (''lat'', JNum 43), (''lng'', JNum (- 56))]"
  have h: "directory_stations env_far_station
          (StationsGet (lon - 0.5) (lat - 0.5) (lon + 0.5) (lat + 0.5)) fresh_world
       = (JArr [?b], fresh_world\<lparr>calls := [StationsGet (lon - 0.5) (lat - 0.5) (lon + 0.5) (lat + 0.5)]\<rparr>)
   \<and> truthy (JArr [?b]) \<and> py_iter (JArr [?b]) = Inr [?b]
   \<and> pick_best env_far_station lat lon [?b] = Inr (Some ?b, 1300)" for lat lon
    by (simp add: station_eval env_far_station_def fresh_world_def)
  have c: "coords env_far_station ?b = Inr (43, - 56)"
    by (simp add: coords_def env_far_station_def)
  have s: "station_of env_far_station ?b 1300 =
      Inr \<lparr>st_id = ''9999999'', st_name = JStr ''Far'', st_state = JStr [],
              st_lat = Some 43, st_lon = Some (- 56), st_distance_km = Some (Some 1300)\<rparr>"
    by (simp add: station_of_def float_or_none_def py_str_def py_round_def env_far_station_def)
  have g: "search_box env_far_station lat lon max_km 0.5 fresh_world =
            (if 1300 > max_km \<or> (\<bar>43 - lat\<bar> > 10 \<and> \<bar>- 56 - lon\<bar> > 10) then Continue
             else (case station_of env_far_station ?b 1300 of Inl e \<Rightarrow> Raise e | Inr st \<Rightarrow> Return st),
             fresh_world\<lparr>calls := [StationsGet (lon - 0.5) (lat - 0.5) (lon + 0.5) (lat + 0.5)]\<rparr>)"
    for lat lon max_km
    using station_sanity_guard[where E = env_far_station and lon = lon and delta = "0.5"
        and lat = lat and w = fresh_world and stations = "JArr [?b]"
        and w' = "fresh_world\<lparr>calls := [StationsGet (lon - 0.5) (lat - 0.5) (lon + 0.5) (lat + 0.5)]\<rparr>"
        and ss = "[?b]" and b = ?b and d = 1300 and max_km = max_km]
      h[where lat = lat and lon = lon] c
    by auto
  show ?thesis
    using g[where max_km = 2000 and lat = 41 and lon = "- 71"]
      g[where max_km = 2000 and lat = 31 and lon = "- 71"]
      g[where max_km = 250 and lat = 41 and lon = "- 71"] s
    by simp
qed

lemma search_boxes_three:
  "all_rounds_continue E lat lon max_km w \<Longrightarrow>
     fst (search_boxes E lat lon max_km [0.5, 1.0, 2.5] w) = Continue"
  by (auto simp: all_rounds_continue_def Let_def split: prod.splits step.splits)

lemma search_box_empty:
  assumes "\<forall>k rq. \<not> truthy (stations_of (http_outcome E k rq))"
  shows "fst (search_box E lat lon max_km delta w) = Continue"
  using assms by (simp add: search_box_def directory_stations_def get_json_def)

text \<open>
  Claim C5. When every round of the search is empty or rejected, the resolver returns the
  regional default of the coordinate, chosen by band: Newport RI for longitude from -90 to
  -60 and latitude from 25 to 50, Galveston Pier 21 for longitude from -105 to below -90 and
  latitude from 25 to 35, San Francisco for longitude from -125 to below -105 and latitude
  from 30 to 50, and Newport RI for every coordinate outside the three bands. So (41.0,
  -71.5) gives Newport RI, (29.0, -95.0) Galveston Pier 21 and (37.0, -122.0) San Francisco.
  The three stations differ, and every regional default has \<^verbatim>\<open>distance_km\<close> null. A
  directory that fails or lists no station makes every round empty.
\<close>

theorem regional_fallback:
  "(py_float (strfloat E) lat = Inr la \<and> py_float (strfloat E) lon = Inr lo
      \<and> all_rounds_continue E la lo max_km w \<longrightarrow>
      fst (nearest_tide_station E lat lon max_km w) = Inr (regional_default la lo))
   \<and> ((\<forall>k rq. \<not> truthy (stations_of (http_outcome E k rq))) \<longrightarrow>
        all_rounds_continue E la lo max_km w)
   \<and> regional_default 41.0 (- 71.5) = newport_ri
   \<and> regional_default 29.0 (- 95.0) = galveston_tx
   \<and> regional_default 37.0 (- 122.0) = san_francisco_ca
   \<and> (- 90 \<le> lo \<and> lo \<le> - 60 \<and> 25 \<le> la \<and> la \<le> 50 \<longrightarrow>
        regional_default la lo = newport_ri)
   \<and> (- 105 \<le> lo \<and> lo < - 90 \<and> 25 \<le> la \<and> la \<le> 35 \<longrightarrow>
        regional_default la lo = galveston_tx)
   \<and> (- 125 \<le> lo \<and> lo < - 105 \<and> 30 \<le> la \<and> la \<le> 50 \<longrightarrow>
        regional_default la lo = san_francisco_ca)
   \<and> (\<not> (- 90 \<le> lo \<and> lo \<le> - 60 \<and> 25 \<le> la \<and> la \<le> 50)
      \<and> \<not> (- 105 \<le> lo \<and> lo < - 90 \<and> 25 \<le> la \<and> la \<le> 35)
      \<and> \<not> (- 125 \<le> lo \<and> lo < - 105 \<and> 30 \<le> la \<and> la \<le> 50) \<longrightarrow>
        regional_default la lo = newport_ri)
   \<and> newport_ri \<noteq> galveston_tx \<and> newport_ri \<noteq> san_francisco_ca
   \<and> galveston_tx \<noteq> san_francisco_ca
   \<and> st_distance_km (regional_default la lo) = Some None
   \<and> st_name newport_ri = JStr ''Newport, RI''
   \<and> st_name galveston_tx = JStr ''Galveston Pier 21, TX''
   \<and> st_name san_francisco_ca = JStr ''San Francisco, CA''"
proof (intro conjI impI)
  assume "py_float (strfloat E) lat = Inr la \<and> py_float (strfloat E) lon = Inr lo
      \<and> all_rounds_continue E la lo max_km w"
  then show "fst (nearest_tide_station E lat lon max_km w) = Inr (regional_default la lo)"
    using search_boxes_three[of E la lo max_km w]
    by (auto simp: nearest_tide_station_def split: prod.splits step.splits)
next
  assume "\<forall>k rq. \<not> truthy (stations_of (http_outcome E k rq))"
  then show "all_rounds_continue E la lo max_km w"
    by (simp add: all_rounds_continue_def Let_def search_box_empty)
qed (auto simp: regional_default_def newport_ri_def galveston_tx_def san_francisco_ca_def)

theorem regional_fallback_witness:
  "fst (nearest_tide_station env_503 (JNum 29) (JNum (- 95)) 250 fresh_world) = Inr galveston_tx
   \<and> fst (nearest_tide_station env_far_station (JNum 37) (JNum (- 122)) 250 fresh_world) =
       Inr san_francisco_ca
   \<and> regional_default 0 0 = newport_ri"
proof (intro conjI)
  have "\<forall>k rq. \<not> truthy (stations_of (http_outcome env_503 k rq))"
    by (simp add: stations_of_def http_outcome_def env_503_def env_of_def)
  then have "all_rounds_continue env_503 29 (- 95) 250 fresh_world"
    using regional_fallback[where E = env_503 and lat = "JNum 29" and la = 29 and lon = "JNum (- 95)"
        and lo = "- 95" and max_km = 250 and w = fresh_world] by blast
  then have "fst (nearest_tide_station env_503 (JNum 29) (JNum (- 95)) 250 fresh_world) =
      Inr (regional_default 29 (- 95))"
    using regional_fallback[where E = env_503 and lat = "JNum 29" and la = 29 and lon = "JNum (- 95)"
        and lo = "- 95" and max_km = 250 and w = fresh_world] by simp
  then show "fst (nearest_tide_station env_503 (JNum 29) (JNum (- 95)) 250 fresh_world) = Inr galveston_tx"
    using regional_fallback[where E = env_503 and lat = "JNum 29" and la = 29 and lon = "JNum (- 95)"
        and lo = "- 95" and max_km = 250 and w = fresh_world] by simp
next
  have "all_rounds_continue env_far_station 37 (- 122) 250 fresh_world"
    by (simp add: all_rounds_continue_def station_eval env_far_station_def fresh_world_def)
  then have "fst (nearest_tide_station env_far_station (JNum 37) (JNum (- 122)) 250 fresh_world) =
      Inr (regional_default 37 (- 122))"
    using regional_fallback[where E = env_far_station and lat = "JNum 37" and la = 37
        and lon = "JNum (- 122)" and lo = "- 122" and max_km = 250 and w = fresh_world]
    by simp
  then show "fst (nearest_tide_station env_far_station (JNum 37) (JNum (- 122)) 250 fresh_world) =
       Inr san_francisco_ca"
    using regional_fallback[where E = env_far_station and lat = "JNum 37" and la = 37
        and lon = "JNum (- 122)" and lo = "- 122" and max_km = 250 and w = fresh_world]
    by simp
next
  show "regional_default 0 0 = newport_ri"
    using regional_fallback[where E = env_503 and lat = "JNum 0" and la = 0 and lon = "JNum 0"
        and lo = 0 and max_km = 250 and w = fresh_world] by simp
qed

lemma invalid_coordinate_newport:
  assumes "(\<exists>e. py_float (strfloat E) lat = Inl e) \<or> (\<exists>e. py_float (strfloat E) lon = Inl e)"
  shows "nearest_tide_station E lat lon max_km w = (Inr newport_ri, w)"
  using assms by (auto simp: nearest_tide_station_def split: sum.splits)

text \<open>
  Claim C4 fails on the code: the resolver is not total. When the directory lists a station
  whose entry has coordinates but no \<^verbatim>\<open>id\<close>, the candidate is accepted and
  \<^verbatim>\<open>str(best["id"])\<close> raises KeyError, which leaves \<^verbatim>\<open>_nearest_tide_station\<close>.
\<close>

theorem nearest_station_raises:
  "nearest_tide_station env_no_id (JNum 41) (JNum (- 71)) 250 fresh_world =
     (Inl KeyError, fresh_world\<lparr>calls := [StationsGet (- 71.5) 40.5 (- 70.5) 41.5]\<rparr>)"
  by (simp add: nearest_tide_station_def station_eval env_no_id_def fresh_world_def)

section \<open>The tides endpoint and its cache\<close>

lemma more_calls_refl: "more_calls w w"
  by (simp add: more_calls_def)

lemma more_calls_trans: "more_calls w w' \<Longrightarrow> more_calls w' w'' \<Longrightarrow> more_calls w w''"
  by (auto simp: more_calls_def)

lemma get_json_more: "more_calls w (snd (get_json E rq w))"
  by (simp add: get_json_def more_calls_def)

lemma fetch_hourly_more: "more_calls w (snd (fetch_hourly_predictions E sid hrs w))"
  by (simp add: fetch_hourly_eq more_calls_def)

lemma fetch_hilo_more: "more_calls w (snd (fetch_highs_lows E sid w))"
  by (simp add: fetch_hilo_eq more_calls_def)

lemma predictions_tries_more: "more_calls w (snd (predictions_tries E sid hrs n w))"
proof (induction n arbitrary: w)
  case 0
  show ?case by (simp add: more_calls_refl)
next
  case (Suc n)
  obtain r w1 where f: "fetch_hourly_predictions E sid hrs w = (r, w1)"
    by (cases "fetch_hourly_predictions E sid hrs w")
  have m: "more_calls w w1" using fetch_hourly_more[of w E sid hrs] f by simp
  show ?case using f m more_calls_trans[OF m Suc.IH[of w1]]
    by (simp split: sum.split)
qed

lemma predictions_windows_more: "more_calls w (snd (predictions_windows E sid hs w))"
proof (induction hs arbitrary: w)
  case Nil
  show ?case by (simp add: more_calls_refl)
next
  case (Cons h hs)
  obtain r w1 where f: "predictions_tries E sid h 2 w = (r, w1)"
    by (cases "predictions_tries E sid h 2 w")
  have m: "more_calls w w1" using predictions_tries_more[of w E sid h 2] f by simp
  show ?case using f m more_calls_trans[OF m Cons.IH[of w1]]
    by (simp split: tried.split)
qed

lemma predictions_resilient_more: "more_calls w (snd (fetch_predictions_resilient E sid w))"
  unfolding fetch_predictions_resilient_def by (rule predictions_windows_more)

lemma hilo_tries_more: "more_calls w (snd (hilo_tries E sid n w))"
proof (induction n arbitrary: w)
  case 0
  show ?case by (simp add: more_calls_refl)
next
  case (Suc n)
  obtain r w1 where f: "fetch_highs_lows E sid w = (r, w1)"
    by (cases "fetch_highs_lows E sid w")
  have m: "more_calls w w1" using fetch_hilo_more[of w E sid] f by simp
  show ?case using f m more_calls_trans[OF m Suc.IH[of w1]]
    by (simp split: sum.split)
qed

lemma hilo_resilient_more: "more_calls w (snd (fetch_hilo_resilient E sid w))"
proof -
  obtain r w1 where f: "hilo_tries E sid 2 w = (r, w1)" by (cases "hilo_tries E sid 2 w")
  then show ?thesis using hilo_tries_more[of w E sid 2]
    by (simp add: fetch_hilo_resilient_def split: tried.split)
qed



lemma get_json_moreD: "get_json E rq w = (r, w') \<Longrightarrow> more_calls w w'"
  using get_json_more[of w E rq] by simp

lemma directory_moreD: "directory_stations E rq w = (r, w') \<Longrightarrow> more_calls w w'"
  by (auto simp: directory_stations_def split: prod.splits dest: get_json_moreD)

lemma search_box_moreD: "search_box E lat lon max_km delta w = (r, w') \<Longrightarrow> more_calls w w'"
  by (auto simp: search_box_def split: prod.splits sum.splits option.splits if_splits
      dest: directory_moreD)

lemma search_boxes_moreD:
  "search_boxes E lat lon max_km ds w = (r, w') \<Longrightarrow> more_calls w w'"
proof (induction ds arbitrary: w)
  case Nil
  then show ?case by (simp add: more_calls_refl)
next
  case (Cons d ds)
  obtain r1 w1 where f: "search_box E lat lon max_km d w = (r1, w1)"
    by (cases "search_box E lat lon max_km d w")
  have m: "more_calls w w1" using f by (rule search_box_moreD)
  show ?case
  proof (cases r1)
    case Continue
    then have "search_boxes E lat lon max_km ds w1 = (r, w')" using Cons.prems f by simp
    then show ?thesis using more_calls_trans[OF m Cons.IH] by blast
  qed (use Cons.prems f m in auto)
qed

lemma nearest_moreD:
  "nearest_tide_station E lat lon max_km w = (r, w') \<Longrightarrow> more_calls w w'"
  unfolding nearest_tide_station_def
  by (auto simp: more_calls_refl simp del: search_boxes.simps
      split: sum.splits prod.splits step.splits dest: search_boxes_moreD)

lemma meta_by_id_moreD: "station_meta_by_id E sid w = (r, w') \<Longrightarrow> more_calls w w'"
  by (auto simp: station_meta_by_id_def split: prod.splits sum.splits dest: get_json_moreD)

lemma choose_station_moreD: "choose_station E q w = (r, w') \<Longrightarrow> more_calls w w'"
  by (auto simp: choose_station_def Let_def more_calls_refl
      split: prod.splits sum.splits option.splits if_splits
      dest: nearest_moreD meta_by_id_moreD)

lemma predictions_resilient_moreD:
  "fetch_predictions_resilient E sid w = (r, w') \<Longrightarrow> more_calls w w'"
  using predictions_resilient_more[of w E sid] by simp

lemma hilo_resilient_moreD: "fetch_hilo_resilient E sid w = (r, w') \<Longrightarrow> more_calls w w'"
  using hilo_resilient_more[of w E sid] by simp

lemma live_bundle_cache:
  "tides_cache (snd (live_bundle E sid meta now cached w1)) = tides_cache w1
   \<or> (\<exists>series hilo.
         fst (live_bundle E sid meta now cached w1) = Tides meta (length series) False series hilo
       \<and> tides_cache (snd (live_bundle E sid meta now cached w1)) =
           (tides_cache w1)(sid \<mapsto>
              \<lparr>t_ts = now, t_meta = meta, t_series = series, t_hilo = hilo, t_stale = False\<rparr>))"
proof -
  obtain r w2 where p: "fetch_predictions_resilient E sid w1 = (r, w2)"
    by (cases "fetch_predictions_resilient E sid w1")
  obtain r' w3 where h: "fetch_hilo_resilient E sid w2 = (r', w3)"
    by (cases "fetch_hilo_resilient E sid w2")
  have c2: "tides_cache w2 = tides_cache w1"
    using predictions_resilient_moreD[OF p] by (simp add: more_calls_def)
  have c3: "tides_cache w3 = tides_cache w2"
    using hilo_resilient_moreD[OF h] by (simp add: more_calls_def)
  show ?thesis
    using p h c2 c3 by (cases r; cases r') (simp_all add: live_bundle_def)
qed

lemma live_bundle_stale:
  assumes "fst (live_bundle E sid meta now cached w1) = Tides m n True s h"
  shows "tides_cache (snd (live_bundle E sid meta now cached w1)) = tides_cache w1"
  using live_bundle_cache[of E sid meta now cached w1] assms by auto


lemma tides_bundle_cases:
  "tides_bundle E sid meta w =
     (if tides_fresh E sid w
      then (case tides_cache w sid of
              Some c \<Rightarrow> (Tides meta (length (t_series c)) (t_stale c) (t_series c) (t_hilo c),
                         w\<lparr>ticks := Suc (ticks w)\<rparr>)
            | None \<Rightarrow> live_bundle E sid meta (clock E (ticks w)) None
                        (w\<lparr>ticks := Suc (ticks w)\<rparr>))
      else live_bundle E sid meta (clock E (ticks w)) (tides_cache w sid)
             (w\<lparr>ticks := Suc (ticks w)\<rparr>))"
  by (auto simp: tides_bundle_def tides_fresh_def time_time_def Let_def split: option.splits)

lemma api_tides_cases:
  "api_tides E q w =
     (case choose_station E q w of
        (Inl e, w0) \<Rightarrow> (Inl e, w0)
      | (Inr (sid, meta), w0) \<Rightarrow>
          (Inr (fst (tides_bundle E sid meta w0)), snd (tides_bundle E sid meta w0)))"
  by (simp add: api_tides_def split: prod.split sum.split)

text \<open>
  Claim C1. Take a tides request whose station and meta dict have been chosen and whose live
  predictions fetch fails. If the cache holds an entry for the station that has expired
  (\<^verbatim>\<open>now - ts\<close> is at least the TTL of 10 minutes), the answer carries the cached series and
  high/low events with \<^verbatim>\<open>stale\<close> true. If the cache holds no entry for the station, the
  answer is the 502 error "temporarily unavailable".
\<close>

theorem stale_serving:
  "choose_station E q w = (Inr (sid, meta), w0)
   \<and> fst (fetch_predictions_resilient E sid (w0\<lparr>ticks := Suc (ticks w0)\<rparr>)) = Inl e \<longrightarrow>
     (\<forall>c. tides_cache w sid = Some c \<and> TIDES_TTL \<le> clock E (ticks w) - t_ts c \<longrightarrow>
        fst (api_tides E q w) =
          Inr (Tides meta (length (t_series c)) True (t_series c) (t_hilo c)))
   \<and> (tides_cache w sid = None \<longrightarrow>
        fst (api_tides E q w) =
          Inr (Unavailable ''Tide data temporarily unavailable from NOAA.'' 502))"
proof (intro impI, elim conjE)
  assume cs: "choose_station E q w = (Inr (sid, meta), w0)"
    and f: "fst (fetch_predictions_resilient E sid (w0\<lparr>ticks := Suc (ticks w0)\<rparr>)) = Inl e"
  have m: "tides_cache w0 = tides_cache w" "ticks w0 = ticks w"
    using choose_station_moreD[OF cs] by (simp_all add: more_calls_def)
  have l: "fst (live_bundle E sid meta now cached (w0\<lparr>ticks := Suc (ticks w0)\<rparr>)) =
      stale_or_unavailable meta cached" for now cached
    using f by (auto simp: live_bundle_def split: prod.splits)
  show "(\<forall>c. tides_cache w sid = Some c \<and> TIDES_TTL \<le> clock E (ticks w) - t_ts c \<longrightarrow>
        fst (api_tides E q w) =
          Inr (Tides meta (length (t_series c)) True (t_series c) (t_hilo c)))
   \<and> (tides_cache w sid = None \<longrightarrow>
        fst (api_tides E q w) =
          Inr (Unavailable ''Tide data temporarily unavailable from NOAA.'' 502))"
    using cs m l
    by (auto simp: api_tides_cases tides_bundle_cases tides_fresh_def stale_or_unavailable_def)
qed

lemmas tides_eval =
  fetch_predictions_resilient_def fetch_hilo_resilient_def numeral_2_eq_2 fetch_hourly_eq
  fetch_hilo_eq http_outcome_def hourly_of_def hilo_of_def predictions_of_def point_of_def
  event_of_def

theorem stale_serving_witness:
  "fst (api_tides env_404 q_default stale_tides_world) =
     Inr (Tides (newport_ri\<lparr>st_distance_km := None\<rparr>) 1 True
            [\<lparr>p_t = JStr ''2024-01-01 00:00'', p_v = 1.5\<rparr>] [])
   \<and> fst (api_tides env_404 q_default fresh_world) =
     Inr (Unavailable ''Tide data temporarily unavailable from NOAA.'' 502)"
proof
  let ?meta = "newport_ri\<lparr>st_distance_km := None\<rparr>"
  let ?c = "\<lparr>t_ts = - 660, t_meta = newport_ri,
           t_series = [\<lparr>p_t = JStr ''2024-01-01 00:00'', p_v = 1.5\<rparr>], t_hilo = [],
           t_stale = False\<rparr>"
  have cs: "choose_station env_404 q_default w = (Inr (''8452660'', ?meta), w)" for w
    by (simp add: choose_station_def q_default_def newport_ri_def)
  have f: "fst (fetch_predictions_resilient env_404 ''8452660'' w) = Inl (HTTPError (Some 404))" for w
    by (simp add: tides_eval env_404_def env_of_def)
  have h: "tides_cache stale_tides_world ''8452660'' = Some ?c
      \<and> TIDES_TTL \<le> clock env_404 (ticks stale_tides_world) - t_ts ?c"
    by (simp add: stale_tides_world_def fresh_world_def env_404_def env_of_def TIDES_TTL_def)
  show "fst (api_tides env_404 q_default stale_tides_world) =
     Inr (Tides ?meta 1 True [\<lparr>p_t = JStr ''2024-01-01 00:00'', p_v = 1.5\<rparr>] [])"
    using stale_serving[where E = env_404 and q = q_default and w = stale_tides_world
        and sid = "''8452660''" and meta = ?meta and ?w0.0 = stale_tides_world
        and e = "HTTPError (Some 404)"] cs f h
    by simp
  have n: "tides_cache fresh_world ''8452660'' = None" by (simp add: fresh_world_def)
  show "fst (api_tides env_404 q_default fresh_world) =
     Inr (Unavailable ''Tide data temporarily unavailable from NOAA.'' 502)"
    using stale_serving[where E = env_404 and q = q_default and w = fresh_world
        and sid = "''8452660''" and meta = ?meta and ?w0.0 = fresh_world
        and e = "HTTPError (Some 404)"] cs f n
    by simp
qed










section \<open>Nearby spots: filter, order and cap\<close>

lemma spots_loop_inv:
  assumes "spots_loop E lat lon R ds seen rows w = (Inr rows', w')"
    and "\<forall>r \<in> set rows. P r"
    and "\<And>d dst live. d \<in> set ds \<Longrightarrow> haversine_km E lat lon (d_lat d) (d_lon d) = Inr dst
           \<Longrightarrow> dst \<le> R \<Longrightarrow>
           P \<lparr>s_id = d_id d, s_name = d_name d, s_lat = d_lat d, s_lon = d_lon d,
              s_distance_km = py_round dst 1,
              s_notes = (case d_notes d of None \<Rightarrow> [] | Some t \<Rightarrow> t),
              s_is_public = d_is_public d, s_live = live\<rparr>"
  shows "\<forall>r \<in> set rows'. P r"
  using assms
proof (induction ds arbitrary: seen rows w)
  case Nil
  then show ?case by simp
next
  case (Cons d ds)
  have step: "\<And>d' dst live. d' \<in> set ds
           \<Longrightarrow> haversine_km E lat lon (d_lat d') (d_lon d') = Inr dst \<Longrightarrow> dst \<le> R \<Longrightarrow>
           P \<lparr>s_id = d_id d', s_name = d_name d', s_lat = d_lat d', s_lon = d_lon d',
              s_distance_km = py_round dst 1,
              s_notes = (case d_notes d' of None \<Rightarrow> [] | Some t \<Rightarrow> t),
              s_is_public = d_is_public d', s_live = live\<rparr>"
    using Cons.prems(3) by simp
  show ?case
  proof (cases "d_id d \<in> seen")
    case True
    then have "spots_loop E lat lon R ds seen rows w = (Inr rows', w')"
      using Cons.prems(1) by simp
    then show ?thesis using Cons.prems(2) step by (rule Cons.IH)
  next
    case False
    show ?thesis
    proof (cases "haversine_km E lat lon (d_lat d) (d_lon d)")
      case (Inl e)
      then show ?thesis using Cons.prems(1) False by simp
    next
      case (Inr dst)
      show ?thesis
      proof (cases "dst \<le> R")
        case True
        obtain live w1 where f: "fetch_marine E (d_lat d) (d_lon d) w = (live, w1)"
          by (cases "fetch_marine E (d_lat d) (d_lon d) w")
        let ?row = "\<lparr>s_id = d_id d, s_name = d_name d, s_lat = d_lat d,
                                s_lon = d_lon d, s_distance_km = py_round dst 1,
                                s_notes = (case d_notes d of None \<Rightarrow> [] | Some t \<Rightarrow> t),
                                s_is_public = d_is_public d, s_live = live\<rparr>"
        have l: "spots_loop E lat lon R ds (insert (d_id d) seen) (rows @ [?row]) w1 = (Inr rows', w')"
          using Cons.prems(1) False Inr True f by simp
        have "P ?row" using Cons.prems(3)[of d dst live] Inr True by simp
        then have "\<forall>r \<in> set (rows @ [?row]). P r"
          using Cons.prems(2) by simp
        with l show ?thesis using step by (rule Cons.IH)
      next
        case False2: False
        have l: "spots_loop E lat lon R ds (insert (d_id d) seen) rows w = (Inr rows', w')"
          using Cons.prems(1) False Inr False2 by simp
        then show ?thesis using Cons.prems(2) step by (rule Cons.IH)
      qed
    qed
  qed
qed

lemma spots_loop_rows:
  assumes "spots_loop E lat lon R ds {} [] w = (Inr rows', w')"
  shows "\<forall>r \<in> set rows'. \<exists>d \<in> set ds. in_radius E lat lon R d \<and> row_of E lat lon d r"
proof (rule spots_loop_inv[OF assms])
  show "\<forall>r \<in> set []. \<exists>d \<in> set ds. in_radius E lat lon R d \<and> row_of E lat lon d r"
    by simp
next
  fix d dst live
  assume a: "d \<in> set ds" "haversine_km E lat lon (d_lat d) (d_lon d) = Inr dst" "dst \<le> R"
  let ?row = "\<lparr>s_id = d_id d, s_name = d_name d, s_lat = d_lat d,
                                s_lon = d_lon d, s_distance_km = py_round dst 1,
                                s_notes = (case d_notes d of None \<Rightarrow> [] | Some t \<Rightarrow> t),
                                s_is_public = d_is_public d, s_live = live\<rparr>"
  have "in_radius E lat lon R d \<and> row_of E lat lon d ?row"
    using a(2,3) by (simp add: in_radius_def row_of_def)
  then show "\<exists>d' \<in> set ds. in_radius E lat lon R d' \<and> row_of E lat lon d' ?row"
    using a(1) by blast
qed

lemma spots_loop_length:
  assumes "distinct (map d_id ds)" and "d_id ` set ds \<inter> seen = {}"
    and "\<forall>d \<in> set ds. \<exists>dst. haversine_km E lat lon (d_lat d) (d_lon d) = Inr dst"
  shows "\<exists>rows' w'. spots_loop E lat lon R ds seen rows w = (Inr rows', w')
           \<and> length rows' = length rows + length (filter (in_radius E lat lon R) ds)"
  using assms
proof (induction ds arbitrary: seen rows w)
  case Nil
  then show ?case by simp
next
  case (Cons d ds)
  obtain dst where h: "haversine_km E lat lon (d_lat d) (d_lon d) = Inr dst"
    using Cons.prems(3) by auto
  have ns: "d_id d \<notin> seen" using Cons.prems(2) by auto
  have d: "distinct (map d_id ds)" and i: "d_id ` set ds \<inter> insert (d_id d) seen = {}"
    and e: "\<forall>d \<in> set ds. \<exists>dst. haversine_km E lat lon (d_lat d) (d_lon d) = Inr dst"
    using Cons.prems by auto
  show ?case
  proof (cases "dst \<le> R")
    case True
    obtain live w1 where f: "fetch_marine E (d_lat d) (d_lon d) w = (live, w1)"
      by (cases "fetch_marine E (d_lat d) (d_lon d) w")
    let ?row = "\<lparr>s_id = d_id d, s_name = d_name d, s_lat = d_lat d,
                                s_lon = d_lon d, s_distance_km = py_round dst 1,
                                s_notes = (case d_notes d of None \<Rightarrow> [] | Some t \<Rightarrow> t),
                                s_is_public = d_is_public d, s_live = live\<rparr>"
    have s: "spots_loop E lat lon R (d # ds) seen rows w =
        spots_loop E lat lon R ds (insert (d_id d) seen) (rows @ [?row]) w1"
      using h ns True f by simp
    have l: "length (filter (in_radius E lat lon R) (d # ds)) =
        Suc (length (filter (in_radius E lat lon R) ds))"
      using h True by (simp add: in_radius_def)
    obtain rows' w' where
      "spots_loop E lat lon R ds (insert (d_id d) seen) (rows @ [?row]) w1 = (Inr rows', w')"
      "length rows' = length (rows @ [?row]) + length (filter (in_radius E lat lon R) ds)"
      using Cons.IH[OF d i e, of "rows @ [?row]" w1] by blast
    then have "spots_loop E lat lon R (d # ds) seen rows w = (Inr rows', w')
        \<and> length rows' = length rows + length (filter (in_radius E lat lon R) (d # ds))"
      unfolding s l by simp
    then show ?thesis by blast
  next
    case False
    have s: "spots_loop E lat lon R (d # ds) seen rows w =
        spots_loop E lat lon R ds (insert (d_id d) seen) rows w"
      using h ns False by simp
    have l: "length (filter (in_radius E lat lon R) (d # ds)) =
        length (filter (in_radius E lat lon R) ds)"
      using h False by (simp add: in_radius_def)
    obtain rows' w' where
      "spots_loop E lat lon R ds (insert (d_id d) seen) rows w = (Inr rows', w')"
      "length rows' = length rows + length (filter (in_radius E lat lon R) ds)"
      using Cons.IH[OF d i e, of rows w] by blast
    then have "spots_loop E lat lon R (d # ds) seen rows w = (Inr rows', w')
        \<and> length rows' = length rows + length (filter (in_radius E lat lon R) (d # ds))"
      unfolding s l by simp
    then show ?thesis by blast
  qed
qed

lemma candidates_distinct:
  assumes "distinct (map d_id db)"
  shows "distinct (map d_id (candidates db cu))"
proof (cases cu)
  case None
  then show ?thesis using assms by (simp add: candidates_def distinct_map_filter)
next
  case (Some uid)
  define A where "A = d_id ` set (filter d_is_public db)"
  define mine where "mine = filter (\<lambda>d. d_user_id d = uid) db"
  have a: "distinct (map d_id (filter d_is_public db))"
    using assms by (rule distinct_map_filter)
  have "distinct (map d_id mine)"
    unfolding mine_def using assms by (rule distinct_map_filter)
  then have b: "distinct (map d_id (filter (\<lambda>m. d_id m \<notin> A) mine))"
    by (rule distinct_map_filter)
  have "A \<inter> set (map d_id (filter (\<lambda>m. d_id m \<notin> A) mine)) = {}"
    by auto
  moreover have "set (map d_id (filter d_is_public db)) = A"
    by (simp add: A_def)
  ultimately have c: "set (map d_id (filter d_is_public db)) \<inter>
      set (map d_id (filter (\<lambda>m. d_id m \<notin> A) mine)) = {}"
    by (simp only:)
  have "candidates db cu = filter d_is_public db @ filter (\<lambda>m. d_id m \<notin> A) mine"
    using Some by (simp add: candidates_def Let_def A_def mine_def)
  then show ?thesis using a b c by (simp only: map_append distinct_append)
qed

lemma candidates_public:
  assumes "\<forall>d \<in> set db. d_is_public d \<longrightarrow> P d"
  shows "length (filter d_is_public db) \<le> length (filter P (candidates db cu))"
proof -
  have e: "filter P (filter d_is_public db) = filter d_is_public db"
    unfolding filter_id_conv using assms by simp
  obtain rest where c: "candidates db cu = filter d_is_public db @ rest"
    by (cases cu) (simp_all add: candidates_def Let_def)
  have "filter P (candidates db cu) = filter d_is_public db @ filter P rest"
    unfolding c filter_append e ..
  then show ?thesis by simp
qed

lemma sorted_take_sort_key: "sorted (map f (take n (sort_key f xs)))"
proof -
  have "sorted (take n (map f (sort_key f xs)))"
    by (rule sorted_wrt_take) (rule sorted_sort_key)
  then show ?thesis by (simp only: take_map)
qed

lemma api_nearby_parsed:
  assumes "arg_float E (n_lat q) = Inr lat" "arg_float E (n_lon q) = Inr lon"
    "arg_radius E (n_radius_km q) = Inr radius_km"
    "spots_loop E lat lon radius_km (candidates db cu) {} [] w = (r, w')"
  shows "api_nearby_spots E db cu q w =
     (case r of Inl e \<Rightarrow> (Inl e, w')
      | Inr rows \<Rightarrow> (Inr (Spots (take 8 (sort_key s_distance_km rows))), w'))"
  using assms by (simp add: api_nearby_spots_def split: sum.split)

lemma api_nearby_inv:
  assumes a: "api_nearby_spots E db cu q w = (Inr (Spots rows), w')"
  shows "\<exists>lat lon radius_km rows0.
      arg_float E (n_lat q) = Inr lat \<and> arg_float E (n_lon q) = Inr lon
    \<and> arg_radius E (n_radius_km q) = Inr radius_km
    \<and> spots_loop E lat lon radius_km (candidates db cu) {} [] w = (Inr rows0, w')
    \<and> rows = take 8 (sort_key s_distance_km rows0)"
proof (cases "arg_float E (n_lat q)")
  case (Inl e)
  then show ?thesis using a by (simp add: api_nearby_spots_def)
next
  case lat: (Inr lat)
  show ?thesis
  proof (cases "arg_float E (n_lon q)")
    case (Inl e)
    then show ?thesis using a lat by (simp add: api_nearby_spots_def)
  next
    case lon: (Inr lon)
    show ?thesis
    proof (cases "arg_radius E (n_radius_km q)")
      case (Inl e)
      then show ?thesis using a lat lon by (simp add: api_nearby_spots_def)
    next
      case rad: (Inr radius_km)
      obtain r w1 where l: "spots_loop E lat lon radius_km (candidates db cu) {} [] w = (r, w1)"
        by (cases "spots_loop E lat lon radius_km (candidates db cu) {} [] w")
      note c = api_nearby_parsed[OF lat lon rad l]
      show ?thesis
      proof (cases r)
        case (Inl e)
        then show ?thesis using a c by simp
      next
        case (Inr rows0)
        then have "w1 = w'" "rows = take 8 (sort_key s_distance_km rows0)"
          using a c by simp_all
        then show ?thesis using lat lon rad l Inr by blast
      qed
    qed
  qed
qed

text \<open>
  What the endpoint guarantees. Whenever \<^verbatim>\<open>api_nearby_spots\<close> answers with rows, every row
  is the row of a candidate dive whose distance to the query point is at most \<^verbatim>\<open>radius_km\<close>,
  the rows are in ascending order of their \<^verbatim>\<open>distance_km\<close> field, and there are at most 8
  of them. When the table has distinct ids and at least 8 public dives (20, say), all within
  the radius, and \<^verbatim>\<open>_haversine_km\<close> raises on no candidate, the answer has exactly 8 rows.
\<close>

theorem nearby_spots_ranked:
  "(\<forall>rows w'. api_nearby_spots E db cu q w = (Inr (Spots rows), w') \<longrightarrow>
      (\<exists>lat lon radius_km.
          arg_float E (n_lat q) = Inr lat \<and> arg_float E (n_lon q) = Inr lon
        \<and> arg_radius E (n_radius_km q) = Inr radius_km
        \<and> (\<forall>r \<in> set rows. \<exists>d \<in> set (candidates db cu).
               in_radius E lat lon radius_km d \<and> row_of E lat lon d r))
      \<and> sorted (map s_distance_km rows) \<and> length rows \<le> 8)
   \<and> (\<forall>lat lon radius_km.
        arg_float E (n_lat q) = Inr lat \<and> arg_float E (n_lon q) = Inr lon
      \<and> arg_radius E (n_radius_km q) = Inr radius_km
      \<and> distinct (map d_id db) \<and> 8 \<le> length (filter d_is_public db)
      \<and> (\<forall>d \<in> set db. d_is_public d \<longrightarrow> in_radius E lat lon radius_km d)
      \<and> (\<forall>d \<in> set (candidates db cu).
            \<exists>dst. haversine_km E lat lon (d_lat d) (d_lon d) = Inr dst)
      \<longrightarrow> (\<exists>rows w'. api_nearby_spots E db cu q w = (Inr (Spots rows), w')
              \<and> length rows = 8))"
proof (intro conjI allI impI)
  fix rows w'
  assume a: "api_nearby_spots E db cu q w = (Inr (Spots rows), w')"
  obtain lat lon radius_km rows0 where
    p: "arg_float E (n_lat q) = Inr lat" "arg_float E (n_lon q) = Inr lon"
       "arg_radius E (n_radius_km q) = Inr radius_km"
    and l: "spots_loop E lat lon radius_km (candidates db cu) {} [] w = (Inr rows0, w')"
    and r: "rows = take 8 (sort_key s_distance_km rows0)"
    using api_nearby_inv[OF a] by blast
  have "\<forall>r \<in> set rows0. \<exists>d \<in> set (candidates db cu).
               in_radius E lat lon radius_km d \<and> row_of E lat lon d r"
    using l by (rule spots_loop_rows)
  moreover have "set rows \<subseteq> set rows0"
    unfolding r using set_take_subset[of 8 "sort_key s_distance_km rows0"] by simp
  ultimately have "\<forall>r \<in> set rows. \<exists>d \<in> set (candidates db cu).
               in_radius E lat lon radius_km d \<and> row_of E lat lon d r"
    by blast
  then show "\<exists>lat lon radius_km.
          arg_float E (n_lat q) = Inr lat \<and> arg_float E (n_lon q) = Inr lon
        \<and> arg_radius E (n_radius_km q) = Inr radius_km
        \<and> (\<forall>r \<in> set rows. \<exists>d \<in> set (candidates db cu).
               in_radius E lat lon radius_km d \<and> row_of E lat lon d r)"
    using p by blast
  show "sorted (map s_distance_km rows)" unfolding r by (rule sorted_take_sort_key)
  show "length rows \<le> 8" unfolding r by simp
next
  fix lat lon radius_km
  assume a: "arg_float E (n_lat q) = Inr lat \<and> arg_float E (n_lon q) = Inr lon
      \<and> arg_radius E (n_radius_km q) = Inr radius_km
      \<and> distinct (map d_id db) \<and> 8 \<le> length (filter d_is_public db)
      \<and> (\<forall>d \<in> set db. d_is_public d \<longrightarrow> in_radius E lat lon radius_km d)
      \<and> (\<forall>d \<in> set (candidates db cu).
            \<exists>dst. haversine_km E lat lon (d_lat d) (d_lon d) = Inr dst)"
  have p: "arg_float E (n_lat q) = Inr lat" "arg_float E (n_lon q) = Inr lon"
       "arg_radius E (n_radius_km q) = Inr radius_km"
    and dd: "distinct (map d_id db)" and n8: "8 \<le> length (filter d_is_public db)"
    and pub: "\<forall>d \<in> set db. d_is_public d \<longrightarrow> in_radius E lat lon radius_km d"
    and hv: "\<forall>d \<in> set (candidates db cu).
            \<exists>dst. haversine_km E lat lon (d_lat d) (d_lon d) = Inr dst"
    using a by blast+
  have d: "distinct (map d_id (candidates db cu))" using dd by (rule candidates_distinct)
  have e: "d_id ` set (candidates db cu) \<inter> {} = {}" by simp
  obtain rows0 w' where
    l: "spots_loop E lat lon radius_km (candidates db cu) {} [] w = (Inr rows0, w')"
    and n: "length rows0 =
      length ([] :: spot list)
        + length (filter (in_radius E lat lon radius_km) (candidates db cu))"
    using spots_loop_length[OF d e hv, of radius_km "[]" w] by blast
  have "length (filter d_is_public db) \<le> length rows0"
    using candidates_public[OF pub, of cu] n by simp
  then have g: "8 \<le> length rows0" using n8 by linarith
  have "api_nearby_spots E db cu q w =
      (Inr (Spots (take 8 (sort_key s_distance_km rows0))), w')"
    using api_nearby_parsed[OF p l] by simp
  moreover have "length (take 8 (sort_key s_distance_km rows0)) = 8"
    using g by simp
  ultimately show "\<exists>rows w'. api_nearby_spots E db cu q w = (Inr (Spots rows), w') \<and> length rows = 8"
    by blast
qed

theorem nearby_spots_ranked_witness:
  "\<exists>rows w'. api_nearby_spots env_nearby db20 None q_nearby fresh_world = (Inr (Spots rows), w')
      \<and> length rows = 8 \<and> sorted (map s_distance_km rows)"
proof -
  note t = nearby_spots_ranked[where E = env_nearby and db = db20 and cu = None
      and q = q_nearby and w = fresh_world]
  have p: "arg_float env_nearby (n_lat q_nearby) = Inr 41
      \<and> arg_float env_nearby (n_lon q_nearby) = Inr (- 71.5)
      \<and> arg_radius env_nearby (n_radius_km q_nearby) = Inr 100"
    by (simp add: arg_float_def arg_radius_def env_nearby_def q_nearby_def)
  have d: "distinct (map d_id db20)"
    by (simp add: db20_def dive_no_def o_def distinct_map inj_on_def)
  have n: "8 \<le> length (filter d_is_public db20)"
    by (simp add: db20_def dive_no_def o_def filter_map)
  have r: "\<forall>d \<in> set db20. d_is_public d \<longrightarrow> in_radius env_nearby 41 (- 71.5) 100 d"
  proof
    fix d assume "d \<in> set db20"
    then obtain i where i: "d = dive_no i" "i < 21" by (auto simp: db20_def)
    have "111 * (real i / 100) \<le> 100" using i(2) by simp
    then show "d_is_public d \<longrightarrow> in_radius env_nearby 41 (- 71.5) 100 d"
      by (simp add: i(1) dive_no_def in_radius_def env_nearby_def)
  qed
  have h: "\<forall>d \<in> set (candidates db20 None).
            \<exists>dst. haversine_km env_nearby 41 (- 71.5) (d_lat d) (d_lon d) = Inr dst"
    by (simp add: env_nearby_def)
  have "\<exists>rows w'. api_nearby_spots env_nearby db20 None q_nearby fresh_world = (Inr (Spots rows), w')
      \<and> length rows = 8"
    using t p d n r h by blast
  then obtain rows w' where
    a: "api_nearby_spots env_nearby db20 None q_nearby fresh_world = (Inr (Spots rows), w')"
    and l: "length rows = 8"
    by blast
  have "sorted (map s_distance_km rows)" using t a by blast
  then show ?thesis using a l by blast
qed

section \<open>Nearby spots: a distance that raises\<close>

lemma spots_loop_raises:
  assumes "haversine_km E lat lon (d_lat d) (d_lon d) = Inl e"
    and "\<forall>p \<in> set pre. \<exists>dst. haversine_km E lat lon (d_lat p) (d_lon p) = Inr dst"
    and "d_id d \<notin> seen \<union> d_id ` set pre"
  shows "fst (spots_loop E lat lon R (pre @ d # post) seen rows w) = Inl e"
  using assms(2,3)
proof (induction pre arbitrary: seen rows w)
  case Nil
  then show ?case using assms(1) by simp
next
  case (Cons p pre)
  obtain dst where h: "haversine_km E lat lon (d_lat p) (d_lon p) = Inr dst"
    using Cons.prems(1) by auto
  obtain live w' where f: "fetch_marine E (d_lat p) (d_lon p) w = (live, w')"
    by (cases "fetch_marine E (d_lat p) (d_lon p) w")
  have a: "\<forall>p \<in> set pre. \<exists>dst. haversine_km E lat lon (d_lat p) (d_lon p) = Inr dst"
    using Cons.prems(1) by simp
  have b: "d_id d \<notin> seen \<union> d_id ` set pre" "d_id d \<notin> insert (d_id p) seen \<union> d_id ` set pre"
    using Cons.prems(2) by auto
  show ?case
    using Cons.IH[OF a b(1)] Cons.IH[OF a b(2)] h f by simp
qed

lemma candidates_db21: "candidates db21 (Some 7) = map arctic_dive [1..<21] @ antipodal_dive # []"
  by (simp add: candidates_def db21_def arctic_dive_def antipodal_dive_def o_def filter_map
      image_iff)

lemma db21_public:
  "length (filter d_is_public db21) = 20
   \<and> list_all (in_radius env_antipodal 64 (- 106) 100) (filter d_is_public db21)
   \<and> distinct (map d_id db21)"
proof (intro conjI)
  show "length (filter d_is_public db21) = 20"
    by (simp add: db21_def arctic_dive_def antipodal_dive_def o_def filter_map)
  have "in_radius env_antipodal 64 (- 106) 100 (arctic_dive i)" if "i < 21" for i
  proof -
    have "111 * (real i / 100) \<le> 100" using that by simp
    then show ?thesis by (simp add: arctic_dive_def in_radius_def env_antipodal_def)
  qed
  then show "list_all (in_radius env_antipodal 64 (- 106) 100) (filter d_is_public db21)"
    by (auto simp: list_all_iff db21_def antipodal_dive_def)
  show "distinct (map d_id db21)"
    by (auto simp: db21_def arctic_dive_def antipodal_dive_def o_def distinct_map inj_on_def)
qed


text \<open>
  Claim C7 fails on the code: the user 7 asks at (64, -106) with the default radius; the
  table holds twenty public dives, all within the radius, and the private dive of the user
  at (-64.00000001, 74). The loop reaches that dive after the twenty public ones, the
  distance computation raises ValueError there, and nothing catches it: the handler ends in
  the exception and answers with no rows at all, instead of the 8 nearest.
\<close>

theorem nearby_spots_raises:
  "fst (api_nearby_spots env_antipodal db21 (Some 7) q_antipodal fresh_world) = Inl ValueError"
proof -
  have p: "arg_float env_antipodal (n_lat q_antipodal) = Inr 64"
      "arg_float env_antipodal (n_lon q_antipodal) = Inr (- 106)"
      "arg_radius env_antipodal (n_radius_km q_antipodal) = Inr 100"
    by (simp_all add: arg_float_def arg_radius_def env_antipodal_def q_antipodal_def)
  have h: "haversine_km env_antipodal 64 (- 106) (d_lat antipodal_dive) (d_lon antipodal_dive)
      = Inl ValueError"
    by (simp add: env_antipodal_def antipodal_dive_def)
  have a: "\<forall>p \<in> set (map arctic_dive [1..<21]).
      \<exists>dst. haversine_km env_antipodal 64 (- 106) (d_lat p) (d_lon p) = Inr dst"
  proof
    fix p assume "p \<in> set (map arctic_dive [1..<21])"
    then obtain i where "p = arctic_dive i" by auto
    then have "haversine_km env_antipodal 64 (- 106) (d_lat p) (d_lon p) =
        Inr (111 * (\<bar>64 - d_lat p\<bar> + \<bar>- 106 - d_lon p\<bar>))"
      by (simp add: env_antipodal_def arctic_dive_def)
    then show "\<exists>dst. haversine_km env_antipodal 64 (- 106) (d_lat p) (d_lon p) = Inr dst"
      by blast
  qed
  have i: "d_id antipodal_dive \<notin> {} \<union> d_id ` set (map arctic_dive [1..<21])"
    by (auto simp: antipodal_dive_def arctic_dive_def)
  have "fst (spots_loop env_antipodal 64 (- 106) 100 (candidates db21 (Some 7)) {} []
          fresh_world) = Inl ValueError"
    unfolding candidates_db21 using h a i by (rule spots_loop_raises)
  then obtain w' where
    "spots_loop env_antipodal 64 (- 106) 100 (candidates db21 (Some 7)) {} [] fresh_world =
       (Inl ValueError, w')"
    by (cases "spots_loop env_antipodal 64 (- 106) 100 (candidates db21 (Some 7)) {} []
          fresh_world") simp
  then show ?thesis
    by (simp add: api_nearby_spots_def p)
qed

end
